theory Spec2Isabelle
  imports Complex_Main
begin

section \<open>Python values and the validation library\<close>

text \<open>
  The providers receive their tool arguments and their upstream payloads as the values
  Python's \<^verbatim>\<open>json\<close> module produces: None, bool, int, float, str, list and dict. A dict
  is an association list in insertion order, looked up with \<open>map_of\<close>; a str is a
  \<open>string\<close> whose characters are the bytes of its UTF-8 encoding; a float is a real
  number when it is finite, or one of the three values \<^verbatim>\<open>inf\<close>, \<^verbatim>\<open>-inf\<close> and \<^verbatim>\<open>nan\<close>.
\<close>

datatype pyfloat = Finite real | PosInf | NegInf | NaN

datatype pyval =
    VNone
  | VBool bool
  | VInt int
  | VFloat pyfloat
  | VStr string
  | VList "pyval list"
  | VDict "(string \<times> pyval) list"

type_synonym pydict = "(string \<times> pyval) list"

text \<open>Python truthiness, as the test of \<^verbatim>\<open>while endpoint:\<close> and \<^verbatim>\<open>arguments or {}\<close> uses it.\<close>

fun truthy :: "pyval \<Rightarrow> bool" where
  "truthy VNone = False"
| "truthy (VBool b) = b"
| "truthy (VInt n) = (n \<noteq> 0)"
| "truthy (VFloat x) = (x \<noteq> Finite 0)"
| "truthy (VStr s) = (s \<noteq> [])"
| "truthy (VList xs) = (xs \<noteq> [])"
| "truthy (VDict d) = (d \<noteq> [])"

text \<open>\<^verbatim>\<open>d.get(k)\<close>: the value under the key, None when the key is absent.\<close>

definition dict_get :: "pydict \<Rightarrow> string \<Rightarrow> pyval" where
  "dict_get d k = (case map_of d k of None \<Rightarrow> VNone | Some v \<Rightarrow> v)"

subsection \<open>Errors\<close>

text \<open>
  One entry of a pydantic ValidationError: the location of the offending input (field
  names and list indices, outermost first) and the kind of violation.
\<close>

datatype loc_item = Field string | Index nat

datatype err_kind =
    Missing
  | String_type
  | Int_type
  | Int_parsing
  | Int_from_float
  | Int_parsing_size
  | Finite_number
  | Bool_type
  | Bool_parsing
  | Float_type
  | Float_parsing
  | List_type
  | Model_type
  | Datetime_type
  | Greater_than_equal int
  | Less_than_equal int

type_synonym verror = "loc_item list \<times> err_kind"

text \<open>
  The exceptions a handler can raise: pydantic's ValidationError with all its entries,
  Python's TypeError (\<^verbatim>\<open>**x\<close> on something that is not a mapping, a URL that is not a
  string), httpx's HTTPStatusError with the status code, a body that is not JSON, and any
  exception of the HTTP client call itself.
\<close>

datatype error =
    ValidationError "verror list"
  | TypeError
  | HTTPStatusError nat
  | JSONDecodeError
  | ClientError

subsection \<open>Field validators (pydantic, lax mode)\<close>

text \<open>
  None of the models of this repository sets a \<^verbatim>\<open>model_config\<close>, so pydantic runs in its
  default configuration: lax mode (a value of another type is coerced where the library
  has a conversion) and \<^verbatim>\<open>extra='ignore'\<close> (a key that is no field of the model is
  dropped). The library's parsers of strings into numbers and booleans, and its conversion of
  an integer into the nearest float, are parameters.
\<close>

record coercions =
  str_as_int :: "string \<Rightarrow> err_kind + int"
  str_as_float :: "string \<Rightarrow> err_kind + pyfloat"
  str_as_bool :: "string \<Rightarrow> err_kind + bool"
  int_as_float :: "int \<Rightarrow> pyfloat option"

type_synonym 'a validated = "verror list + 'a"

definition fail :: "err_kind \<Rightarrow> 'a validated" where
  "fail k = Inl [([], k)]"

definition parsed :: "err_kind + 'a \<Rightarrow> 'a validated" where
  "parsed r = (case r of Inl k \<Rightarrow> fail k | Inr a \<Rightarrow> Inr a)"

text \<open>A \<^verbatim>\<open>str\<close> field takes a string and nothing else.\<close>

fun validate_str :: "pyval \<Rightarrow> string validated" where
  "validate_str (VStr s) = Inr s"
| "validate_str _ = fail String_type"

text \<open>
  A float is read as an integer when it is finite, has no fraction and lies strictly
  between \<open>- 2 ^ 63\<close> and \<open>2 ^ 63\<close>; the three failures have their own kinds.
\<close>

definition float_as_int :: "pyfloat \<Rightarrow> err_kind + int" where
  "float_as_int f = (case f of
       Finite x \<Rightarrow>
         if x \<notin> \<int> then Inl Int_from_float
         else if - (2 ^ 63) < x \<and> x < 2 ^ 63 then Inr \<lfloor>x\<rfloor>
         else Inl Int_parsing_size
     | _ \<Rightarrow> Inl Finite_number)"

text \<open>An \<^verbatim>\<open>int\<close> field takes an integer of any size, a bool, such a float, or a string the library parses.\<close>

fun validate_int :: "coercions \<Rightarrow> pyval \<Rightarrow> int validated" where
  "validate_int C (VInt n) = Inr n"
| "validate_int C (VBool b) = Inr (if b then 1 else 0)"
| "validate_int C (VFloat f) = parsed (float_as_int f)"
| "validate_int C (VStr s) = parsed (str_as_int C s)"
| "validate_int C _ = fail Int_type"

text \<open>
  A \<^verbatim>\<open>float\<close> field takes any float, a bool, a string the library parses, or an integer
  the library can convert to a float.
\<close>

fun validate_float :: "coercions \<Rightarrow> pyval \<Rightarrow> pyfloat validated" where
  "validate_float C (VFloat f) = Inr f"
| "validate_float C (VInt n) = (case int_as_float C n of None \<Rightarrow> fail Float_type | Some f \<Rightarrow> Inr f)"
| "validate_float C (VBool b) = Inr (Finite (if b then 1 else 0))"
| "validate_float C (VStr s) = parsed (str_as_float C s)"
| "validate_float C _ = fail Float_type"

text \<open>
  A \<^verbatim>\<open>bool\<close> field takes a bool, a string the library parses, and the numbers 0 and 1. Another
  integer of the 64-bit range, or a float read as such an integer, cannot be parsed; every
  other number is of the wrong type.
\<close>

definition int_as_bool :: "int \<Rightarrow> bool validated" where
  "int_as_bool n = (if n = 0 then Inr False else if n = 1 then Inr True else fail Bool_parsing)"

fun validate_bool :: "coercions \<Rightarrow> pyval \<Rightarrow> bool validated" where
  "validate_bool C (VBool b) = Inr b"
| "validate_bool C (VStr s) = parsed (str_as_bool C s)"
| "validate_bool C (VInt n) =
     (if - (2 ^ 63) \<le> n \<and> n < 2 ^ 63 then int_as_bool n else fail Bool_type)"
| "validate_bool C (VFloat f) =
     (case float_as_int f of Inl k \<Rightarrow> fail Bool_type | Inr n \<Rightarrow> int_as_bool n)"
| "validate_bool C _ = fail Bool_type"

text \<open>\<^verbatim>\<open>Field(ge=lo)\<close> and \<^verbatim>\<open>Field(le=hi)\<close>, checked on the coerced integer.\<close>

definition check_ge :: "int \<Rightarrow> int validated \<Rightarrow> int validated" where
  "check_ge lo r = (case r of Inl es \<Rightarrow> Inl es
     | Inr n \<Rightarrow> if lo \<le> n then Inr n else fail (Greater_than_equal lo))"

definition check_le :: "int \<Rightarrow> int validated \<Rightarrow> int validated" where
  "check_le hi r = (case r of Inl es \<Rightarrow> Inl es
     | Inr n \<Rightarrow> if n \<le> hi then Inr n else fail (Less_than_equal hi))"

text \<open>\<^verbatim>\<open>Optional[T]\<close>: None is accepted as it is, anything else goes to the validator of T.\<close>

definition validate_optional :: "(pyval \<Rightarrow> 'a validated) \<Rightarrow> pyval \<Rightarrow> 'a option validated" where
  "validate_optional f v = (case v of VNone \<Rightarrow> Inr None | _ \<Rightarrow> map_sum id Some (f v))"

text \<open>An error found inside a field or a list item is reported under that location.\<close>

definition at_loc :: "loc_item \<Rightarrow> 'a validated \<Rightarrow> 'a validated" where
  "at_loc l r = map_sum (map (\<lambda>(loc, k). (l # loc, k))) id r"

definition errs_of :: "'a validated \<Rightarrow> verror list" where
  "errs_of r = (case r of Inl es \<Rightarrow> es | Inr _ \<Rightarrow> [])"

text \<open>
  Validation does not stop at the first bad field: \<open>ap\<close> applies a constructor to one more
  validated field and, when either side failed, keeps the errors of both in field order.
\<close>

definition ap :: "('a \<Rightarrow> 'b) validated \<Rightarrow> 'a validated \<Rightarrow> 'b validated" where
  "ap rf ra = (case rf of
       Inl es \<Rightarrow> Inl (es @ errs_of ra)
     | Inr f \<Rightarrow> (case ra of Inl es \<Rightarrow> Inl es | Inr a \<Rightarrow> Inr (f a)))"

text \<open>A validation result is proper when a failure carries at least one error.\<close>

definition proper :: "'a validated \<Rightarrow> bool" where
  "proper r = (case r of Inl es \<Rightarrow> es \<noteq> [] | Inr _ \<Rightarrow> True)"

text \<open>The part of a dict whose keys are among the given names.\<close>

definition known_keys :: "string list \<Rightarrow> pydict \<Rightarrow> pydict" where
  "known_keys names d = filter (\<lambda>(k, v). k \<in> set names) d"

subsection \<open>Declared field types\<close>

text \<open>
  What a class declares for a field: its type (\<^verbatim>\<open>str\<close>, \<^verbatim>\<open>int\<close> with the bounds \<^verbatim>\<open>ge\<close> and \<^verbatim>\<open>le\<close>
  if any, \<^verbatim>\<open>bool\<close>, \<^verbatim>\<open>Optional[T]\<close>, \<^verbatim>\<open>List[T]\<close>) and whether it is required. A value satisfies
  a declared type when it is of that type or lax mode converts it: an \<^verbatim>\<open>int\<close> is also read
  from a bool, from a float without fraction in the 64-bit range and from a string the
  library parses; a \<^verbatim>\<open>bool\<close> also from 0, 1 and a string the library parses; a \<^verbatim>\<open>str\<close> from
  nothing but a string.
\<close>

datatype ftype = TStr | TInt "int option" "int option" | TBool | TOptional ftype | TList ftype

fun lax_int :: "coercions \<Rightarrow> pyval \<Rightarrow> int option" where
  "lax_int C (VInt n) = Some n"
| "lax_int C (VBool b) = Some (if b then 1 else 0)"
| "lax_int C (VFloat f) = (case f of
       Finite x \<Rightarrow> if x \<in> \<int> \<and> - (2 ^ 63) < x \<and> x < 2 ^ 63 then Some \<lfloor>x\<rfloor> else None
     | _ \<Rightarrow> None)"
| "lax_int C (VStr s) = (case str_as_int C s of Inl k \<Rightarrow> None | Inr n \<Rightarrow> Some n)"
| "lax_int C _ = None"

fun lax_bool :: "coercions \<Rightarrow> pyval \<Rightarrow> bool" where
  "lax_bool C (VBool b) = True"
| "lax_bool C (VInt n) = (n = 0 \<or> n = 1)"
| "lax_bool C (VFloat f) = (f = Finite 0 \<or> f = Finite 1)"
| "lax_bool C (VStr s) = (case str_as_bool C s of Inl k \<Rightarrow> False | Inr b \<Rightarrow> True)"
| "lax_bool C _ = False"

definition in_bounds :: "int option \<Rightarrow> int option \<Rightarrow> int \<Rightarrow> bool" where
  "in_bounds lo hi n \<longleftrightarrow>
     (case lo of None \<Rightarrow> True | Some l \<Rightarrow> l \<le> n) \<and> (case hi of None \<Rightarrow> True | Some h \<Rightarrow> n \<le> h)"

fun accepts :: "coercions \<Rightarrow> ftype \<Rightarrow> pyval \<Rightarrow> bool" where
  "accepts C TStr v = (case v of VStr s \<Rightarrow> True | _ \<Rightarrow> False)"
| "accepts C (TInt lo hi) v = (case lax_int C v of None \<Rightarrow> False | Some n \<Rightarrow> in_bounds lo hi n)"
| "accepts C TBool v = lax_bool C v"
| "accepts C (TOptional T) v = (v = VNone \<or> accepts C T v)"
| "accepts C (TList T) v = (case v of VList vs \<Rightarrow> list_all (accepts C T) vs | _ \<Rightarrow> False)"

text \<open>
  A mapping satisfies the declared fields when every required field is there and every
  field that is there holds a value that satisfies its declared type. Keys that are no
  field are not looked at.
\<close>

type_synonym field_decl = "string \<times> bool \<times> ftype"

definition satisfies :: "coercions \<Rightarrow> field_decl list \<Rightarrow> pydict \<Rightarrow> bool" where
  "satisfies C decls d =
     list_all (\<lambda>(k, req, T). case map_of d k of None \<Rightarrow> \<not> req | Some v \<Rightarrow> accepts C T v) decls"

subsection \<open>Required keys of nested models\<close>

text \<open>
  The structure of a response model: a model with its keys (the alias where a field has
  one), each required or not, a list of items, or a value without keys. A JSON value
  misses a required key at a location when, going down from the value along keys and list
  indices, the location ends at a required key of a model whose object does not have it.
\<close>

datatype shape = Scalar | Items shape | Model "(string \<times> bool \<times> shape) list"

inductive missing :: "shape \<Rightarrow> pyval \<Rightarrow> loc_item list \<Rightarrow> bool" where
  missing_here:
    "(k, True, sh) \<in> set fs \<Longrightarrow> map_of d k = None \<Longrightarrow> missing (Model fs) (VDict d) [Field k]"
| missing_inside:
    "(k, req, sh) \<in> set fs \<Longrightarrow> map_of d k = Some v \<Longrightarrow> missing sh v loc
      \<Longrightarrow> missing (Model fs) (VDict d) (Field k # loc)"
| missing_item:
    "i < length vs \<Longrightarrow> missing sh (vs ! i) loc \<Longrightarrow> missing (Items sh) (VList vs) (Index i # loc)"

text \<open>\<^verbatim>\<open>List[T]\<close>: the input must be a list; every item is validated under its index.\<close>

fun validate_items :: "(pyval \<Rightarrow> 'a validated) \<Rightarrow> nat \<Rightarrow> pyval list \<Rightarrow> 'a list validated" where
  "validate_items f i [] = Inr []"
| "validate_items f i (v # vs) = ap (ap (Inr (#)) (at_loc (Index i) (f v))) (validate_items f (Suc i) vs)"

definition validate_list :: "(pyval \<Rightarrow> 'a validated) \<Rightarrow> pyval \<Rightarrow> 'a list validated" where
  "validate_list f v = (case v of VList vs \<Rightarrow> validate_items f 0 vs | _ \<Rightarrow> fail List_type)"

text \<open>A nested model: the input must be a dict, whose keys are then validated as fields.\<close>

definition validate_model :: "(pydict \<Rightarrow> 'a validated) \<Rightarrow> pyval \<Rightarrow> 'a validated" where
  "validate_model f v = (case v of VDict d \<Rightarrow> f d | _ \<Rightarrow> fail Model_type)"

text \<open>
  A field without default (\<^verbatim>\<open>Field(...)\<close>) is required; a field with a default takes
  the default, unvalidated, when its key is absent. Keys are looked up by the field's
  alias when it has one.
\<close>

definition required :: "string \<Rightarrow> (pyval \<Rightarrow> 'a validated) \<Rightarrow> pydict \<Rightarrow> 'a validated" where
  "required k f d = (case map_of d k of
       None \<Rightarrow> Inl [([Field k], Missing)]
     | Some v \<Rightarrow> at_loc (Field k) (f v))"

definition with_default :: "string \<Rightarrow> 'a \<Rightarrow> (pyval \<Rightarrow> 'a validated) \<Rightarrow> pydict \<Rightarrow> 'a validated" where
  "with_default k dflt f d = (case map_of d k of
       None \<Rightarrow> Inr dflt
     | Some v \<Rightarrow> at_loc (Field k) (f v))"

text \<open>
  \<^verbatim>\<open>Model(**x)\<close>: unpacking anything but a dict raises TypeError before pydantic runs;
  a failed validation raises ValidationError; otherwise the instance is returned whole.
\<close>

definition construct :: "(pydict \<Rightarrow> 'a validated) \<Rightarrow> pyval \<Rightarrow> error + 'a" where
  "construct f v = (case v of
       VDict d \<Rightarrow> (case f d of Inl es \<Rightarrow> Inl (ValidationError es) | Inr a \<Rightarrow> Inr a)
     | _ \<Rightarrow> Inl TypeError)"

section \<open>The HTTP client\<close>

text \<open>
  A call of \<^verbatim>\<open>httpx.get\<close> or \<^verbatim>\<open>httpx.post\<close> is recorded with everything the provider
  hands to the client: the method, the URL string, the \<^verbatim>\<open>params=\<close> mapping, the headers and
  the body (no provider of this repository passes one). The upstream is a function of the
  number of calls made so far and of the request; it answers with a status code and a
  body (None when the body is not JSON), or the client call raises (no connection, a URL
  the client cannot use).
\<close>

datatype http_method = GET | POST

record request =
  request_method :: http_method
  request_url :: string
  request_params :: pydict
  request_headers :: "(string \<times> string option) list"
  request_body :: "pyval option"

datatype reply = Raised | Response nat "pyval option"

type_synonym upstream = "nat \<Rightarrow> request \<Rightarrow> reply"

definition send :: "upstream \<Rightarrow> request \<Rightarrow> request list \<Rightarrow> reply \<times> request list" where
  "send up rq calls = (up (length calls) rq, calls @ [rq])"

definition get_request :: "string \<Rightarrow> pydict \<Rightarrow> request" where
  "get_request u ps =
     \<lparr>request_method = GET, request_url = u, request_params = ps,
      request_headers = [], request_body = None\<rparr>"

definition post_request :: "string \<Rightarrow> (string \<times> string option) list \<Rightarrow> request" where
  "post_request u hs =
     \<lparr>request_method = POST, request_url = u, request_params = [],
      request_headers = hs, request_body = None\<rparr>"

text \<open>\<^verbatim>\<open>httpx.get(url)\<close>, \<^verbatim>\<open>httpx.get(url, params=...)\<close> and \<^verbatim>\<open>httpx.post(url, headers=...)\<close>.\<close>

definition httpx_get :: "upstream \<Rightarrow> string \<Rightarrow> pydict \<Rightarrow> request list \<Rightarrow> reply \<times> request list" where
  "httpx_get up u ps calls = send up (get_request u ps) calls"

text \<open>
  A header whose value is None is no header the client can send: \<^verbatim>\<open>httpx.post\<close> raises
  TypeError on it, and the upstream is not asked.
\<close>

definition httpx_post :: "upstream \<Rightarrow> string \<Rightarrow> (string \<times> string option) list \<Rightarrow> request list
    \<Rightarrow> (error + reply) \<times> request list" where
  "httpx_post up u hs calls =
     (if None \<in> snd ` set hs then (Inl TypeError, calls @ [post_request u hs])
      else (Inr (up (length calls) (post_request u hs)), calls @ [post_request u hs]))"

text \<open>
  The query a request goes out with. The client parses the URL string it is given: the
  query is what stands between the first \<^verbatim>\<open>?\<close> and the \<^verbatim>\<open>#\<close> after it, if no \<^verbatim>\<open>#\<close> comes first.
  In the query httpx percent-encodes the space, the characters \<^verbatim>\<open>" # < >\<close> and every byte
  outside printable ASCII, as a percent sign and two upper-case hexadecimal digits, and
  leaves every other character as it is.
\<close>

definition hex_digit :: "nat \<Rightarrow> char" where
  "hex_digit n = ''0123456789ABCDEF'' ! n"

definition percent_byte :: "char \<Rightarrow> string" where
  "percent_byte c = [CHR ''%'', hex_digit (of_char c div 16), hex_digit (of_char c mod 16)]"

definition query_safe :: "char \<Rightarrow> bool" where
  "query_safe c \<longleftrightarrow>
     (0x20::nat) < of_char c \<and> (of_char c :: nat) < 0x7F
     \<and> c \<noteq> CHR 0x22 \<and> c \<noteq> CHR ''#'' \<and> c \<noteq> CHR ''<'' \<and> c \<noteq> CHR ''>''"

definition quote_query :: "string \<Rightarrow> string" where
  "quote_query q = concat (map (\<lambda>c. if query_safe c then [c] else percent_byte c) q)"

definition url_query :: "string \<Rightarrow> string option" where
  "url_query u = (case dropWhile (\<lambda>c. c \<noteq> CHR ''?'' \<and> c \<noteq> CHR ''#'') u of
       [] \<Rightarrow> None
     | c # rest \<Rightarrow> if c = CHR ''?'' then Some (takeWhile (\<lambda>c. c \<noteq> CHR ''#'') rest) else None)"

definition issued_query :: "string \<Rightarrow> string option" where
  "issued_query u = map_option quote_query (url_query u)"

text \<open>\<^verbatim>\<open>response.raise_for_status()\<close> followed by \<^verbatim>\<open>response.json()\<close>.\<close>

definition json_of :: "reply \<Rightarrow> error + pyval" where
  "json_of r = (case r of
       Raised \<Rightarrow> Inl ClientError
     | Response st b \<Rightarrow>
         if 200 \<le> st \<and> st < 300
         then (case b of None \<Rightarrow> Inl JSONDecodeError | Some v \<Rightarrow> Inr v)
         else Inl (HTTPStatusError st))"

text \<open>The content item a handler returns: \<^verbatim>\<open>types.TextContent(type="text", text=...)\<close>.\<close>

datatype content = TextContent string

text \<open>
  A handler's last two steps: on a fetched response, the one-element list with its
  \<^verbatim>\<open>str\<close> rendering; on an exception, the exception again (it is logged and re-raised).
\<close>

definition respond :: "('r \<Rightarrow> string) \<Rightarrow> (error + 'r) \<times> request list
    \<Rightarrow> (error + content list) \<times> request list" where
  "respond str_of res = (case res of
       (Inl e, calls) \<Rightarrow> (Inl e, calls)
     | (Inr r, calls) \<Rightarrow> (Inr [TextContent (str_of r)], calls))"

section \<open>Swiss Federal Railways: rail traffic information (ch\_sbb.py)\<close>

text \<open>A field \<open>f\<close> of the class \<open>K\<close> is the record field \<open>K_f\<close>.\<close>

record TrafficInfoParams =
  TrafficInfoParams_select :: "string option"
  TrafficInfoParams_where :: "string option"
  TrafficInfoParams_group_by :: "string option"
  TrafficInfoParams_order_by :: "string option"
  TrafficInfoParams_limit :: int
  TrafficInfoParams_offset :: int
  TrafficInfoParams_refine :: "string option"
  TrafficInfoParams_exclude :: "string option"
  TrafficInfoParams_lang :: "string option"
  TrafficInfoParams_timezone :: string
  TrafficInfoParams_include_links :: bool
  TrafficInfoParams_include_app_metas :: bool

definition TrafficInfoParams_fields :: "field_decl list" where
  "TrafficInfoParams_fields =
     [(''select'', False, TOptional TStr),
      (''where'', False, TOptional TStr),
      (''group_by'', False, TOptional TStr),
      (''order_by'', False, TOptional TStr),
      (''limit'', False, TInt (Some 1) (Some 100)),
      (''offset'', False, TInt (Some 0) None),
      (''refine'', False, TOptional TStr),
      (''exclude'', False, TOptional TStr),
      (''lang'', False, TOptional TStr),
      (''timezone'', False, TStr),
      (''include_links'', False, TBool),
      (''include_app_metas'', False, TBool)]"

definition TrafficInfoParams_validate :: "coercions \<Rightarrow> pydict \<Rightarrow> TrafficInfoParams validated" where
  "TrafficInfoParams_validate C d =
     ap (ap (ap (ap (ap (ap (ap (ap (ap (ap (ap (ap
       (Inr (\<lambda>a b c e f g h i j k l m.
          \<lparr>TrafficInfoParams_select = a, TrafficInfoParams_where = b,
           TrafficInfoParams_group_by = c, TrafficInfoParams_order_by = e,
           TrafficInfoParams_limit = f, TrafficInfoParams_offset = g,
           TrafficInfoParams_refine = h, TrafficInfoParams_exclude = i,
           TrafficInfoParams_lang = j, TrafficInfoParams_timezone = k,
           TrafficInfoParams_include_links = l, TrafficInfoParams_include_app_metas = m\<rparr>))
       (with_default ''select'' None (validate_optional validate_str) d))
       (with_default ''where'' None (validate_optional validate_str) d))
       (with_default ''group_by'' None (validate_optional validate_str) d))
       (with_default ''order_by'' None (validate_optional validate_str) d))
       (with_default ''limit'' 10 (\<lambda>v. check_le 100 (check_ge 1 (validate_int C v))) d))
       (with_default ''offset'' 0 (\<lambda>v. check_ge 0 (validate_int C v)) d))
       (with_default ''refine'' None (validate_optional validate_str) d))
       (with_default ''exclude'' None (validate_optional validate_str) d))
       (with_default ''lang'' None (validate_optional validate_str) d))
       (with_default ''timezone'' ''UTC'' validate_str d))
       (with_default ''include_links'' False (validate_bool C) d))
       (with_default ''include_app_metas'' False (validate_bool C) d)"

text \<open>\<^verbatim>\<open>params.model_dump(exclude_none=True)\<close>: the fields in declaration order, without those that are None.\<close>

definition dump_optional :: "string \<Rightarrow> ('a \<Rightarrow> pyval) \<Rightarrow> 'a option \<Rightarrow> pydict" where
  "dump_optional k f v = (case v of None \<Rightarrow> [] | Some a \<Rightarrow> [(k, f a)])"

definition TrafficInfoParams_model_dump :: "TrafficInfoParams \<Rightarrow> pydict" where
  "TrafficInfoParams_model_dump p =
     dump_optional ''select'' VStr (TrafficInfoParams_select p)
     @ dump_optional ''where'' VStr (TrafficInfoParams_where p)
     @ dump_optional ''group_by'' VStr (TrafficInfoParams_group_by p)
     @ dump_optional ''order_by'' VStr (TrafficInfoParams_order_by p)
     @ [(''limit'', VInt (TrafficInfoParams_limit p)),
        (''offset'', VInt (TrafficInfoParams_offset p))]
     @ dump_optional ''refine'' VStr (TrafficInfoParams_refine p)
     @ dump_optional ''exclude'' VStr (TrafficInfoParams_exclude p)
     @ dump_optional ''lang'' VStr (TrafficInfoParams_lang p)
     @ [(''timezone'', VStr (TrafficInfoParams_timezone p)),
        (''include_links'', VBool (TrafficInfoParams_include_links p)),
        (''include_app_metas'', VBool (TrafficInfoParams_include_app_metas p))]"

text \<open>The response models. How pydantic reads a datetime is a parameter of their validators.\<close>

record 'dt TrafficInfoResult =
  TrafficInfoResult_title :: string
  TrafficInfoResult_link :: string
  TrafficInfoResult_description :: string
  TrafficInfoResult_published :: 'dt
  TrafficInfoResult_author :: string
  TrafficInfoResult_validitybegin :: 'dt
  TrafficInfoResult_validityend :: 'dt
  TrafficInfoResult_description_html :: string

record 'dt TrafficInfoResponse =
  TrafficInfoResponse_total_count :: int
  TrafficInfoResponse_results :: "'dt TrafficInfoResult list"

definition TrafficInfoResult_validate :: "(pyval \<Rightarrow> 'dt validated) \<Rightarrow> pydict
    \<Rightarrow> 'dt TrafficInfoResult validated" where
  "TrafficInfoResult_validate validate_datetime d =
     ap (ap (ap (ap (ap (ap (ap (ap
       (Inr (\<lambda>a b c e f g h i.
          \<lparr>TrafficInfoResult_title = a, TrafficInfoResult_link = b,
           TrafficInfoResult_description = c, TrafficInfoResult_published = e,
           TrafficInfoResult_author = f, TrafficInfoResult_validitybegin = g,
           TrafficInfoResult_validityend = h, TrafficInfoResult_description_html = i\<rparr>))
       (required ''title'' validate_str d))
       (required ''link'' validate_str d))
       (required ''description'' validate_str d))
       (required ''published'' validate_datetime d))
       (required ''author'' validate_str d))
       (required ''validitybegin'' validate_datetime d))
       (required ''validityend'' validate_datetime d))
       (required ''description_html'' validate_str d)"

definition TrafficInfoResponse_validate :: "coercions \<Rightarrow> (pyval \<Rightarrow> 'dt validated) \<Rightarrow> pydict
    \<Rightarrow> 'dt TrafficInfoResponse validated" where
  "TrafficInfoResponse_validate C validate_datetime d =
     ap (ap
       (Inr (\<lambda>a b. \<lparr>TrafficInfoResponse_total_count = a, TrafficInfoResponse_results = b\<rparr>))
       (required ''total_count'' (validate_int C) d))
       (required ''results''
          (validate_list (validate_model (TrafficInfoResult_validate validate_datetime))) d)"

definition sbb_BASE_URL :: string where
  "sbb_BASE_URL = ''https://data.sbb.ch/api/explore/v2.1''"

definition fetch_rail_traffic_info :: "coercions \<Rightarrow> (pyval \<Rightarrow> 'dt validated) \<Rightarrow> upstream
    \<Rightarrow> TrafficInfoParams \<Rightarrow> request list \<Rightarrow> (error + 'dt TrafficInfoResponse) \<times> request list" where
  "fetch_rail_traffic_info C validate_datetime up p calls =
     (let endpoint = sbb_BASE_URL @ ''/catalog/datasets/rail-traffic-information/records'';
          (response, calls') = httpx_get up endpoint (TrafficInfoParams_model_dump p) calls
      in case json_of response of
           Inl e \<Rightarrow> (Inl e, calls')
         | Inr v \<Rightarrow> (construct (TrafficInfoResponse_validate C validate_datetime) v, calls'))"

text \<open>
  The handler unpacks \<^verbatim>\<open>arguments\<close> as it comes: \<^verbatim>\<open>TrafficInfoParams(**arguments)\<close>, with no
  \<^verbatim>\<open>or {}\<close>. The arguments are None or a dict.
\<close>

definition handle_rail_traffic_info :: "coercions \<Rightarrow> (pyval \<Rightarrow> 'dt validated)
    \<Rightarrow> ('dt TrafficInfoResponse \<Rightarrow> string) \<Rightarrow> upstream \<Rightarrow> pydict option \<Rightarrow> request list
    \<Rightarrow> (error + content list) \<times> request list" where
  "handle_rail_traffic_info C validate_datetime str_of up arguments calls =
     (case construct (TrafficInfoParams_validate C)
             (case arguments of None \<Rightarrow> VNone | Some d \<Rightarrow> VDict d) of
        Inl e \<Rightarrow> (Inl e, calls)
      | Inr p \<Rightarrow> respond str_of (fetch_rail_traffic_info C validate_datetime up p calls))"

subsection \<open>Railway lines\<close>

record RailwayLineParams =
  RailwayLineParams_select :: "string option"
  RailwayLineParams_where :: "string option"
  RailwayLineParams_group_by :: "string option"
  RailwayLineParams_order_by :: "string option"
  RailwayLineParams_limit :: int
  RailwayLineParams_offset :: int

definition RailwayLineParams_fields :: "field_decl list" where
  "RailwayLineParams_fields =
     [(''select'', False, TOptional TStr),
      (''where'', False, TOptional TStr),
      (''group_by'', False, TOptional TStr),
      (''order_by'', False, TOptional TStr),
      (''limit'', False, TInt (Some 1) (Some 100)),
      (''offset'', False, TInt (Some 0) None)]"

definition RailwayLineParams_validate :: "coercions \<Rightarrow> pydict \<Rightarrow> RailwayLineParams validated" where
  "RailwayLineParams_validate C d =
     ap (ap (ap (ap (ap (ap
       (Inr (\<lambda>a b c e f g.
          \<lparr>RailwayLineParams_select = a, RailwayLineParams_where = b,
           RailwayLineParams_group_by = c, RailwayLineParams_order_by = e,
           RailwayLineParams_limit = f, RailwayLineParams_offset = g\<rparr>))
       (with_default ''select'' None (validate_optional validate_str) d))
       (with_default ''where'' None (validate_optional validate_str) d))
       (with_default ''group_by'' None (validate_optional validate_str) d))
       (with_default ''order_by'' None (validate_optional validate_str) d))
       (with_default ''limit'' 10 (\<lambda>v. check_le 100 (check_ge 1 (validate_int C v))) d))
       (with_default ''offset'' 0 (\<lambda>v. check_ge 0 (validate_int C v)) d)"

definition RailwayLineParams_model_dump :: "RailwayLineParams \<Rightarrow> pydict" where
  "RailwayLineParams_model_dump p =
     dump_optional ''select'' VStr (RailwayLineParams_select p)
     @ dump_optional ''where'' VStr (RailwayLineParams_where p)
     @ dump_optional ''group_by'' VStr (RailwayLineParams_group_by p)
     @ dump_optional ''order_by'' VStr (RailwayLineParams_order_by p)
     @ [(''limit'', VInt (RailwayLineParams_limit p)),
        (''offset'', VInt (RailwayLineParams_offset p))]"

text \<open>The validator of the response model \<^verbatim>\<open>RailwayLineResponse\<close> is a parameter here.\<close>

definition fetch_railway_lines :: "(pydict \<Rightarrow> 'r validated) \<Rightarrow> upstream \<Rightarrow> RailwayLineParams
    \<Rightarrow> request list \<Rightarrow> (error + 'r) \<times> request list" where
  "fetch_railway_lines RailwayLineResponse_validate up p calls =
     (let endpoint = sbb_BASE_URL @ ''/catalog/datasets/linie/records'';
          (response, calls') = httpx_get up endpoint (RailwayLineParams_model_dump p) calls
      in case json_of response of
           Inl e \<Rightarrow> (Inl e, calls')
         | Inr v \<Rightarrow> (construct RailwayLineResponse_validate v, calls'))"

definition handle_railway_lines :: "coercions \<Rightarrow> (pydict \<Rightarrow> 'r validated) \<Rightarrow> ('r \<Rightarrow> string)
    \<Rightarrow> upstream \<Rightarrow> pydict option \<Rightarrow> request list \<Rightarrow> (error + content list) \<times> request list" where
  "handle_railway_lines C RailwayLineResponse_validate str_of up arguments calls =
     (case construct (RailwayLineParams_validate C)
             (case arguments of None \<Rightarrow> VNone | Some d \<Rightarrow> VDict d) of
        Inl e \<Rightarrow> (Inl e, calls)
      | Inr p \<Rightarrow> respond str_of (fetch_railway_lines RailwayLineResponse_validate up p calls))"

section \<open>Public transit connections (ch\_public\_transit.py)\<close>

definition transit_BASE_URL :: string where
  "transit_BASE_URL = ''http://transport.opendata.ch/v1/connections?''"

text \<open>
  \<^verbatim>\<open>to: str = Field(None, ...)\<close>: a string when supplied, and the unvalidated default None
  otherwise, so the field holds an optional string.
\<close>

record Public_TransitParams =
  Public_TransitParams_origin :: string
  Public_TransitParams_to :: "string option"

definition Public_TransitParams_fields :: "field_decl list" where
  "Public_TransitParams_fields = [(''origin'', True, TStr), (''to'', False, TStr)]"

definition Public_TransitParams_validate :: "pydict \<Rightarrow> Public_TransitParams validated" where
  "Public_TransitParams_validate d =
     ap (ap
       (Inr (\<lambda>a b. \<lparr>Public_TransitParams_origin = a, Public_TransitParams_to = b\<rparr>))
       (required ''origin'' validate_str d))
       (with_default ''to'' None (\<lambda>v. map_sum id Some (validate_str v)) d)"

record Location =
  Location_id :: string
  Location_name :: string

record Stop =
  Stop_station :: Location
  Stop_arrival :: "string option"
  Stop_departure :: "string option"
  Stop_delay :: "int option"

record Departure =
  Departure_station :: Location
  Departure_departure :: string
  Departure_platform :: string

record Arrival =
  Arrival_station :: Location
  Arrival_arrival :: string
  Arrival_platform :: string

record Route =
  Route_name :: string
  Route_category :: string
  Route_number :: string
  Route_operator :: string
  Route_to :: string
  Route_passList :: "Stop list"

record TransitOption =
  TransitOption_journey :: Route

record PublicTransitResult =
  PublicTransitResult_start :: Departure
  PublicTransitResult_to :: Arrival
  PublicTransitResult_duration :: string
  PublicTransitResult_transfers :: int
  PublicTransitResult_sections :: "TransitOption list"

record Public_TransitResponse =
  Public_TransitResponse_connections :: "PublicTransitResult list"

definition Location_validate :: "pydict \<Rightarrow> Location validated" where
  "Location_validate d =
     ap (ap (Inr (\<lambda>a b. \<lparr>Location_id = a, Location_name = b\<rparr>))
       (required ''id'' validate_str d))
       (required ''name'' validate_str d)"

definition Stop_validate :: "coercions \<Rightarrow> pydict \<Rightarrow> Stop validated" where
  "Stop_validate C d =
     ap (ap (ap (ap
       (Inr (\<lambda>a b c e. \<lparr>Stop_station = a, Stop_arrival = b, Stop_departure = c, Stop_delay = e\<rparr>))
       (required ''station'' (validate_model Location_validate) d))
       (with_default ''arrival'' None (validate_optional validate_str) d))
       (with_default ''departure'' None (validate_optional validate_str) d))
       (with_default ''delay'' None (validate_optional (validate_int C)) d)"

definition Departure_validate :: "pydict \<Rightarrow> Departure validated" where
  "Departure_validate d =
     ap (ap (ap
       (Inr (\<lambda>a b c. \<lparr>Departure_station = a, Departure_departure = b, Departure_platform = c\<rparr>))
       (required ''station'' (validate_model Location_validate) d))
       (required ''departure'' validate_str d))
       (required ''platform'' validate_str d)"

definition Arrival_validate :: "pydict \<Rightarrow> Arrival validated" where
  "Arrival_validate d =
     ap (ap (ap
       (Inr (\<lambda>a b c. \<lparr>Arrival_station = a, Arrival_arrival = b, Arrival_platform = c\<rparr>))
       (required ''station'' (validate_model Location_validate) d))
       (required ''arrival'' validate_str d))
       (required ''platform'' validate_str d)"

definition Route_validate :: "coercions \<Rightarrow> pydict \<Rightarrow> Route validated" where
  "Route_validate C d =
     ap (ap (ap (ap (ap (ap
       (Inr (\<lambda>a b c e f g. \<lparr>Route_name = a, Route_category = b, Route_number = c,
                              Route_operator = e, Route_to = f, Route_passList = g\<rparr>))
       (required ''name'' validate_str d))
       (required ''category'' validate_str d))
       (required ''number'' validate_str d))
       (required ''operator'' validate_str d))
       (required ''to'' validate_str d))
       (required ''passList'' (validate_list (validate_model (Stop_validate C))) d)"

definition TransitOption_validate :: "coercions \<Rightarrow> pydict \<Rightarrow> TransitOption validated" where
  "TransitOption_validate C d =
     ap (Inr (\<lambda>a. \<lparr>TransitOption_journey = a\<rparr>))
       (required ''journey'' (validate_model (Route_validate C)) d)"

text \<open>\<open>start\<close> is read from the key \<^verbatim>\<open>from\<close>, its alias.\<close>

definition PublicTransitResult_validate :: "coercions \<Rightarrow> pydict \<Rightarrow> PublicTransitResult validated" where
  "PublicTransitResult_validate C d =
     ap (ap (ap (ap (ap
       (Inr (\<lambda>a b c e f. \<lparr>PublicTransitResult_start = a, PublicTransitResult_to = b,
                            PublicTransitResult_duration = c, PublicTransitResult_transfers = e,
                            PublicTransitResult_sections = f\<rparr>))
       (required ''from'' (validate_model Departure_validate) d))
       (required ''to'' (validate_model Arrival_validate) d))
       (required ''duration'' validate_str d))
       (required ''transfers'' (validate_int C) d))
       (required ''sections'' (validate_list (validate_model (TransitOption_validate C))) d)"

definition Public_TransitResponse_validate :: "coercions \<Rightarrow> pydict \<Rightarrow> Public_TransitResponse validated" where
  "Public_TransitResponse_validate C d =
     ap (Inr (\<lambda>a. \<lparr>Public_TransitResponse_connections = a\<rparr>))
       (required ''connections'' (validate_list (validate_model (PublicTransitResult_validate C))) d)"

text \<open>The keys of the response models, with \<open>True\<close> for those declared with \<^verbatim>\<open>Field(...)\<close> or without default.\<close>

definition Location_shape :: shape where
  "Location_shape = Model [(''id'', True, Scalar), (''name'', True, Scalar)]"

definition Stop_shape :: shape where
  "Stop_shape = Model
     [(''station'', True, Location_shape), (''arrival'', False, Scalar),
      (''departure'', False, Scalar), (''delay'', False, Scalar)]"

definition Departure_shape :: shape where
  "Departure_shape = Model
     [(''station'', True, Location_shape), (''departure'', True, Scalar), (''platform'', True, Scalar)]"

definition Arrival_shape :: shape where
  "Arrival_shape = Model
     [(''station'', True, Location_shape), (''arrival'', True, Scalar), (''platform'', True, Scalar)]"

definition Route_shape :: shape where
  "Route_shape = Model
     [(''name'', True, Scalar), (''category'', True, Scalar), (''number'', True, Scalar),
      (''operator'', True, Scalar), (''to'', True, Scalar), (''passList'', True, Items Stop_shape)]"

definition TransitOption_shape :: shape where
  "TransitOption_shape = Model [(''journey'', True, Route_shape)]"

definition PublicTransitResult_shape :: shape where
  "PublicTransitResult_shape = Model
     [(''from'', True, Departure_shape), (''to'', True, Arrival_shape), (''duration'', True, Scalar),
      (''transfers'', True, Scalar), (''sections'', True, Items TransitOption_shape)]"

definition Public_TransitResponse_shape :: shape where
  "Public_TransitResponse_shape = Model [(''connections'', True, Items PublicTransitResult_shape)]"

text \<open>\<^verbatim>\<open>f"{x}"\<close> of an optional string: the string itself, and \<^verbatim>\<open>None\<close> for None.\<close>

definition format_optional :: "string option \<Rightarrow> string" where
  "format_optional v = (case v of None \<Rightarrow> ''None'' | Some s \<Rightarrow> s)"

definition transit_endpoint :: "Public_TransitParams \<Rightarrow> string" where
  "transit_endpoint p =
     transit_BASE_URL @ ''from='' @ Public_TransitParams_origin p
       @ ''&to='' @ format_optional (Public_TransitParams_to p)"

definition fetch_transit_data :: "coercions \<Rightarrow> upstream \<Rightarrow> Public_TransitParams \<Rightarrow> request list
    \<Rightarrow> (error + Public_TransitResponse) \<times> request list" where
  "fetch_transit_data C up p calls =
     (let endpoint = transit_endpoint p;
          (response, calls') = httpx_get up endpoint [] calls
      in case json_of response of
           Inl e \<Rightarrow> (Inl e, calls')
         | Inr v \<Rightarrow> (construct (Public_TransitResponse_validate C) v, calls'))"

text \<open>\<^verbatim>\<open>arguments or {}\<close>: None and the empty dict both give the empty dict.\<close>

definition or_empty :: "pydict option \<Rightarrow> pydict" where
  "or_empty arguments = (case arguments of None \<Rightarrow> [] | Some d \<Rightarrow> if d = [] then [] else d)"

definition handle_transitdata :: "coercions \<Rightarrow> (Public_TransitResponse \<Rightarrow> string) \<Rightarrow> upstream
    \<Rightarrow> pydict option \<Rightarrow> request list \<Rightarrow> (error + content list) \<times> request list" where
  "handle_transitdata C str_of up arguments calls =
     (case construct Public_TransitParams_validate (VDict (or_empty arguments)) of
        Inl e \<Rightarrow> (Inl e, calls)
      | Inr p \<Rightarrow> respond str_of (fetch_transit_data C up p calls))"

text \<open>
  The JSON object that matches a response model exactly: one key per field, under the
  field's alias where it has one, holding the field's value (null for an optional field
  that is None).
\<close>

definition json_optional :: "('a \<Rightarrow> pyval) \<Rightarrow> 'a option \<Rightarrow> pyval" where
  "json_optional f v = (case v of None \<Rightarrow> VNone | Some a \<Rightarrow> f a)"

definition Location_json :: "Location \<Rightarrow> pyval" where
  "Location_json x = VDict [(''id'', VStr (Location_id x)), (''name'', VStr (Location_name x))]"

definition Stop_json :: "Stop \<Rightarrow> pyval" where
  "Stop_json x = VDict
     [(''station'', Location_json (Stop_station x)),
      (''arrival'', json_optional VStr (Stop_arrival x)),
      (''departure'', json_optional VStr (Stop_departure x)),
      (''delay'', json_optional VInt (Stop_delay x))]"

definition Departure_json :: "Departure \<Rightarrow> pyval" where
  "Departure_json x = VDict
     [(''station'', Location_json (Departure_station x)),
      (''departure'', VStr (Departure_departure x)),
      (''platform'', VStr (Departure_platform x))]"

definition Arrival_json :: "Arrival \<Rightarrow> pyval" where
  "Arrival_json x = VDict
     [(''station'', Location_json (Arrival_station x)),
      (''arrival'', VStr (Arrival_arrival x)),
      (''platform'', VStr (Arrival_platform x))]"

definition Route_json :: "Route \<Rightarrow> pyval" where
  "Route_json x = VDict
     [(''name'', VStr (Route_name x)),
      (''category'', VStr (Route_category x)),
      (''number'', VStr (Route_number x)),
      (''operator'', VStr (Route_operator x)),
      (''to'', VStr (Route_to x)),
      (''passList'', VList (map Stop_json (Route_passList x)))]"

definition TransitOption_json :: "TransitOption \<Rightarrow> pyval" where
  "TransitOption_json x = VDict [(''journey'', Route_json (TransitOption_journey x))]"

definition PublicTransitResult_json :: "PublicTransitResult \<Rightarrow> pyval" where
  "PublicTransitResult_json x = VDict
     [(''from'', Departure_json (PublicTransitResult_start x)),
      (''to'', Arrival_json (PublicTransitResult_to x)),
      (''duration'', VStr (PublicTransitResult_duration x)),
      (''transfers'', VInt (PublicTransitResult_transfers x)),
      (''sections'', VList (map TransitOption_json (PublicTransitResult_sections x)))]"

definition Public_TransitResponse_json :: "Public_TransitResponse \<Rightarrow> pyval" where
  "Public_TransitResponse_json x = VDict
     [(''connections'', VList (map PublicTransitResult_json (Public_TransitResponse_connections x)))]"

section \<open>Historical emissions (glob\_emissions.py)\<close>

text \<open>
  The classes \<^verbatim>\<open>EndpointParams\<close>, \<^verbatim>\<open>EndpointResult\<close> and \<^verbatim>\<open>EndpointResponse\<close> and the functions
  \<^verbatim>\<open>fetch_endpoint_data\<close> and \<^verbatim>\<open>handle_endpoint\<close> exist in several modules; here they carry
  the module's name in front.
\<close>

definition emissions_BASE_URL :: string where
  "emissions_BASE_URL =
     ''https://www.climatewatchdata.org/api/v1/data/historical_emissions?regions=EUU&''"

record emissions_EndpointParams =
  emissions_EndpointParams_start_year :: "string option"
  emissions_EndpointParams_end_year :: "string option"

record YearlyEmissions =
  YearlyEmissions_year :: int
  YearlyEmissions_value :: pyfloat

record emissions_EndpointResult =
  emissions_EndpointResult_id :: int
  emissions_EndpointResult_iso_code3 :: string
  emissions_EndpointResult_country :: string
  emissions_EndpointResult_data_source :: string
  emissions_EndpointResult_sector :: string
  emissions_EndpointResult_gas :: string
  emissions_EndpointResult_unit :: string
  emissions_EndpointResult_emissions :: "YearlyEmissions list"

record emissions_EndpointResponse =
  emissions_EndpointResponse_data :: "emissions_EndpointResult list"

definition emissions_EndpointParams_fields :: "field_decl list" where
  "emissions_EndpointParams_fields =
     [(''start_year'', False, TOptional TStr), (''end_year'', False, TOptional TStr)]"

definition emissions_EndpointParams_validate :: "pydict \<Rightarrow> emissions_EndpointParams validated" where
  "emissions_EndpointParams_validate d =
     ap (ap
       (Inr (\<lambda>a b. \<lparr>emissions_EndpointParams_start_year = a, emissions_EndpointParams_end_year = b\<rparr>))
       (with_default ''start_year'' None (validate_optional validate_str) d))
       (with_default ''end_year'' None (validate_optional validate_str) d)"

definition YearlyEmissions_validate :: "coercions \<Rightarrow> pydict \<Rightarrow> YearlyEmissions validated" where
  "YearlyEmissions_validate C d =
     ap (ap (Inr (\<lambda>a b. \<lparr>YearlyEmissions_year = a, YearlyEmissions_value = b\<rparr>))
       (required ''year'' (validate_int C) d))
       (required ''value'' (validate_float C) d)"

definition emissions_EndpointResult_validate :: "coercions \<Rightarrow> pydict \<Rightarrow> emissions_EndpointResult validated" where
  "emissions_EndpointResult_validate C d =
     ap (ap (ap (ap (ap (ap (ap (ap
       (Inr (\<lambda>a b c e f g h i.
          \<lparr>emissions_EndpointResult_id = a, emissions_EndpointResult_iso_code3 = b,
           emissions_EndpointResult_country = c, emissions_EndpointResult_data_source = e,
           emissions_EndpointResult_sector = f, emissions_EndpointResult_gas = g,
           emissions_EndpointResult_unit = h, emissions_EndpointResult_emissions = i\<rparr>))
       (required ''id'' (validate_int C) d))
       (required ''iso_code3'' validate_str d))
       (required ''country'' validate_str d))
       (required ''data_source'' validate_str d))
       (required ''sector'' validate_str d))
       (required ''gas'' validate_str d))
       (required ''unit'' validate_str d))
       (required ''emissions'' (validate_list (validate_model (YearlyEmissions_validate C))) d)"

definition emissions_EndpointResponse_validate :: "coercions \<Rightarrow> pydict \<Rightarrow> emissions_EndpointResponse validated" where
  "emissions_EndpointResponse_validate C d =
     ap (Inr (\<lambda>a. \<lparr>emissions_EndpointResponse_data = a\<rparr>))
       (required ''data'' (validate_list (validate_model (emissions_EndpointResult_validate C))) d)"

text \<open>
  Iterating over a pydantic model yields its fields as pairs of name and value, so
  \<^verbatim>\<open>all_data.extend(EndpointResponse(**data))\<close> appends one pair per page: the field name
  \<^verbatim>\<open>data\<close> with the list of that page's results.
\<close>

definition emissions_EndpointResponse_iter :: "emissions_EndpointResponse
    \<Rightarrow> (string \<times> emissions_EndpointResult list) list" where
  "emissions_EndpointResponse_iter r = [(''data'', emissions_EndpointResponse_data r)]"

text \<open>\<^verbatim>\<open>s.rstrip(c)\<close> for a single character: every trailing occurrence is removed.\<close>

definition rstrip :: "char \<Rightarrow> string \<Rightarrow> string" where
  "rstrip c s = rev (dropWhile (\<lambda>x. x = c) (rev s))"

text \<open>\<^verbatim>\<open>if params.x: endpoint += f"x={params.x}&"\<close>: nothing for None and for the empty string.\<close>

definition year_part :: "string \<Rightarrow> string option \<Rightarrow> string" where
  "year_part k v = (case v of
       None \<Rightarrow> []
     | Some s \<Rightarrow> if s = [] then [] else k @ ''='' @ s @ ''&'')"

definition emissions_endpoint :: "emissions_EndpointParams option \<Rightarrow> string" where
  "emissions_endpoint params = (case params of
       None \<Rightarrow> emissions_BASE_URL
     | Some p \<Rightarrow>
         rstrip CHR ''&''
           (emissions_BASE_URL @ ''&''
            @ year_part ''start_year'' (emissions_EndpointParams_start_year p)
            @ year_part ''end_year'' (emissions_EndpointParams_end_year p)))"

text \<open>
  The loop \<^verbatim>\<open>while endpoint:\<close>. After the first page \<open>endpoint\<close> is whatever the payload holds
  under \<^verbatim>\<open>next\<close>, so it is a Python value: the loop ends when it is falsy, and a truthy
  value that is not a string makes the client raise TypeError without a request. The
  loop has no bound of its own: the result is None when it never ends.
\<close>

partial_function (option) emissions_fetch_loop :: "coercions \<Rightarrow> upstream \<Rightarrow> pyval
    \<Rightarrow> (string \<times> emissions_EndpointResult list) list \<Rightarrow> request list
    \<Rightarrow> ((error + (string \<times> emissions_EndpointResult list) list) \<times> request list) option" where
  "emissions_fetch_loop C up endpoint all_data calls =
     (if \<not> truthy endpoint then Some (Inr all_data, calls)
      else case endpoint of
        VStr u \<Rightarrow>
          (case httpx_get up u [] calls of (response, calls') \<Rightarrow>
             (case json_of response of
                Inl e \<Rightarrow> Some (Inl e, calls')
              | Inr data \<Rightarrow>
                  (case construct (emissions_EndpointResponse_validate C) data of
                     Inl e \<Rightarrow> Some (Inl e, calls')
                   | Inr r \<Rightarrow>
                       emissions_fetch_loop C up
                         (case data of VDict d \<Rightarrow> dict_get d ''next'' | _ \<Rightarrow> VNone)
                         (all_data @ emissions_EndpointResponse_iter r) calls')))
      | _ \<Rightarrow> Some (Inl TypeError, calls))"

definition emissions_fetch_endpoint_data :: "coercions \<Rightarrow> upstream \<Rightarrow> emissions_EndpointParams option
    \<Rightarrow> request list
    \<Rightarrow> ((error + (string \<times> emissions_EndpointResult list) list) \<times> request list) option" where
  "emissions_fetch_endpoint_data C up params calls =
     emissions_fetch_loop C up (VStr (emissions_endpoint params)) [] calls"

definition emissions_handle_endpoint :: "coercions
    \<Rightarrow> ((string \<times> emissions_EndpointResult list) list \<Rightarrow> string) \<Rightarrow> upstream
    \<Rightarrow> pydict option \<Rightarrow> request list \<Rightarrow> ((error + content list) \<times> request list) option" where
  "emissions_handle_endpoint C str_of up arguments calls =
     (case construct emissions_EndpointParams_validate (VDict (or_empty arguments)) of
        Inl e \<Rightarrow> Some (Inl e, calls)
      | Inr p \<Rightarrow> map_option (respond str_of) (emissions_fetch_endpoint_data C up (Some p) calls))"

section \<open>EV charging stations (ch\_evcharge.py)\<close>

definition evcharge_BASE_URL :: string where
  "evcharge_BASE_URL = ''http://ich-tanke-strom.switzerlandnorth.cloudapp.azure.com:8080/geoserver/ich-tanke-strom/ows?service=WFS&version=1.0.0&request=GetFeature&typeName=ich-tanke-strom''"

record ChargingStationParams =
  ChargingStationParams_limit :: int
  ChargingStationParams_test :: string

definition ChargingStationParams_fields :: "field_decl list" where
  "ChargingStationParams_fields = [(''limit'', False, TInt None None), (''test'', False, TStr)]"

definition ChargingStationParams_validate :: "coercions \<Rightarrow> pydict \<Rightarrow> ChargingStationParams validated" where
  "ChargingStationParams_validate C d =
     ap (ap
       (Inr (\<lambda>a b. \<lparr>ChargingStationParams_limit = a, ChargingStationParams_test = b\<rparr>))
       (with_default ''limit'' 3 (validate_int C) d))
       (with_default ''test'' ''&cql_filter=RenewableEnergy=true'' validate_str d)"

definition evcharge_endpoint :: "ChargingStationParams \<Rightarrow> string" where
  "evcharge_endpoint p =
     evcharge_BASE_URL @ ''%3Aevse&maxFeatures=10&outputFormat=application%2Fjson''
       @ ChargingStationParams_test p"

text \<open>
  The validator of the response model \<^verbatim>\<open>CharingStationResponse\<close> is a parameter here: the
  request is what this section is about.
\<close>

definition evcharge_fetch_endpoint_data :: "(pydict \<Rightarrow> 'r validated) \<Rightarrow> upstream
    \<Rightarrow> ChargingStationParams \<Rightarrow> request list \<Rightarrow> (error + 'r) \<times> request list" where
  "evcharge_fetch_endpoint_data CharingStationResponse_validate up p calls =
     (let endpoint = evcharge_endpoint p;
          (response, calls') = httpx_get up endpoint [] calls
      in case json_of response of
           Inl e \<Rightarrow> (Inl e, calls')
         | Inr v \<Rightarrow> (construct CharingStationResponse_validate v, calls'))"

definition handle_query_charing_station :: "coercions \<Rightarrow> (pydict \<Rightarrow> 'r validated) \<Rightarrow> ('r \<Rightarrow> string)
    \<Rightarrow> upstream \<Rightarrow> pydict option \<Rightarrow> request list \<Rightarrow> (error + content list) \<times> request list" where
  "handle_query_charing_station C CharingStationResponse_validate str_of up arguments calls =
     (case construct (ChargingStationParams_validate C) (VDict (or_empty arguments)) of
        Inl e \<Rightarrow> (Inl e, calls)
      | Inr p \<Rightarrow>
          respond str_of (evcharge_fetch_endpoint_data CharingStationResponse_validate up p calls))"

section \<open>People search (glob\_personal\_data.py)\<close>

definition personal_data_BASE_URL :: string where
  "personal_data_BASE_URL = ''https://api.apollo.io/api/v1/mixed_people/search''"

text \<open>The headers; the key is what the environment holds under \<^verbatim>\<open>personal_api_key\<close>, if anything.\<close>

definition personal_data_headers :: "string option \<Rightarrow> (string \<times> string option) list" where
  "personal_data_headers personal_api_key =
     [(''accept'', Some ''application/json''),
      (''Cache-Control'', Some ''no-cache''),
      (''Content-Type'', Some ''application/json''),
      (''x-api-key'', personal_api_key)]"

record personal_data_EndpointParams =
  personal_data_EndpointParams_person_titles :: "string list option"
  personal_data_EndpointParams_person_locations :: "string list option"
  personal_data_EndpointParams_person_seniorities :: "string list option"
  personal_data_EndpointParams_organization_locations :: "string list option"
  personal_data_EndpointParams_q_organization_domains :: "string list option"
  personal_data_EndpointParams_contact_email_status :: "string list option"
  personal_data_EndpointParams_organization_ids :: "string list option"
  personal_data_EndpointParams_organization_num_employees_ranges :: "string list option"
  personal_data_EndpointParams_q_keywords :: "string option"
  personal_data_EndpointParams_page :: "int option"
  personal_data_EndpointParams_per_page :: "int option"

definition personal_data_EndpointParams_fields :: "field_decl list" where
  "personal_data_EndpointParams_fields =
     [(''person_titles'', False, TOptional (TList TStr)),
      (''person_locations'', False, TOptional (TList TStr)),
      (''person_seniorities'', False, TOptional (TList TStr)),
      (''organization_locations'', False, TOptional (TList TStr)),
      (''q_organization_domains'', False, TOptional (TList TStr)),
      (''contact_email_status'', False, TOptional (TList TStr)),
      (''organization_ids'', False, TOptional (TList TStr)),
      (''organization_num_employees_ranges'', False, TOptional (TList TStr)),
      (''q_keywords'', False, TOptional TStr),
      (''page'', False, TOptional (TInt None None)),
      (''per_page'', False, TOptional (TInt None None))]"

definition personal_data_EndpointParams_validate :: "coercions \<Rightarrow> pydict
    \<Rightarrow> personal_data_EndpointParams validated" where
  "personal_data_EndpointParams_validate C d =
     ap (ap (ap (ap (ap (ap (ap (ap (ap (ap (ap
       (Inr (\<lambda>a b c e f g h i j k l.
          \<lparr>personal_data_EndpointParams_person_titles = a,
           personal_data_EndpointParams_person_locations = b,
           personal_data_EndpointParams_person_seniorities = c,
           personal_data_EndpointParams_organization_locations = e,
           personal_data_EndpointParams_q_organization_domains = f,
           personal_data_EndpointParams_contact_email_status = g,
           personal_data_EndpointParams_organization_ids = h,
           personal_data_EndpointParams_organization_num_employees_ranges = i,
           personal_data_EndpointParams_q_keywords = j,
           personal_data_EndpointParams_page = k,
           personal_data_EndpointParams_per_page = l\<rparr>))
       (with_default ''person_titles'' None (validate_optional (validate_list validate_str)) d))
       (with_default ''person_locations'' None (validate_optional (validate_list validate_str)) d))
       (with_default ''person_seniorities'' None (validate_optional (validate_list validate_str)) d))
       (with_default ''organization_locations'' None (validate_optional (validate_list validate_str)) d))
       (with_default ''q_organization_domains'' None (validate_optional (validate_list validate_str)) d))
       (with_default ''contact_email_status'' None (validate_optional (validate_list validate_str)) d))
       (with_default ''organization_ids'' None (validate_optional (validate_list validate_str)) d))
       (with_default ''organization_num_employees_ranges'' None
          (validate_optional (validate_list validate_str)) d))
       (with_default ''q_keywords'' None (validate_optional validate_str) d))
       (with_default ''page'' (Some 1) (validate_optional (validate_int C)) d))
       (with_default ''per_page'' None (validate_optional (validate_int C)) d)"

text \<open>
  The values \<^verbatim>\<open>model_dump\<close> gives for the fields of this model: a list of strings, a string
  or an integer.
\<close>

datatype dumped = DList "string list" | DStr string | DInt int

definition dump_field :: "string \<Rightarrow> ('a \<Rightarrow> dumped) \<Rightarrow> 'a option \<Rightarrow> (string \<times> dumped) list" where
  "dump_field k f v = (case v of None \<Rightarrow> [] | Some a \<Rightarrow> [(k, f a)])"

definition personal_data_model_dump :: "personal_data_EndpointParams \<Rightarrow> (string \<times> dumped) list" where
  "personal_data_model_dump p =
     dump_field ''person_titles'' DList (personal_data_EndpointParams_person_titles p)
     @ dump_field ''person_locations'' DList (personal_data_EndpointParams_person_locations p)
     @ dump_field ''person_seniorities'' DList (personal_data_EndpointParams_person_seniorities p)
     @ dump_field ''organization_locations'' DList
         (personal_data_EndpointParams_organization_locations p)
     @ dump_field ''q_organization_domains'' DList
         (personal_data_EndpointParams_q_organization_domains p)
     @ dump_field ''contact_email_status'' DList (personal_data_EndpointParams_contact_email_status p)
     @ dump_field ''organization_ids'' DList (personal_data_EndpointParams_organization_ids p)
     @ dump_field ''organization_num_employees_ranges'' DList
         (personal_data_EndpointParams_organization_num_employees_ranges p)
     @ dump_field ''q_keywords'' DStr (personal_data_EndpointParams_q_keywords p)
     @ dump_field ''page'' DInt (personal_data_EndpointParams_page p)
     @ dump_field ''per_page'' DInt (personal_data_EndpointParams_per_page p)"

text \<open>\<^verbatim>\<open>str(n)\<close> of an integer: its decimal digits, after a minus sign when it is negative.\<close>

fun str_nat :: "nat \<Rightarrow> string" where
  "str_nat n = (if n < 10 then [''0123456789'' ! n]
                else str_nat (n div 10) @ [''0123456789'' ! (n mod 10)])"

definition str_int :: "int \<Rightarrow> string" where
  "str_int i = (if i < 0 then CHR ''-'' # str_nat (nat (- i)) else str_nat (nat i))"

text \<open>\<^verbatim>\<open>s.replace(' ', '%20')\<close>.\<close>

definition replace_space :: "string \<Rightarrow> string" where
  "replace_space s = concat (map (\<lambda>c. if c = CHR '' '' then ''%20'' else [c]) s)"

text \<open>The inner loop \<^verbatim>\<open>for item in value\<close> and the outer loop over \<^verbatim>\<open>params_dict.items()\<close>.\<close>

fun append_items :: "string \<Rightarrow> string list \<Rightarrow> string \<Rightarrow> string" where
  "append_items key [] query_string = query_string"
| "append_items key (item # items) query_string =
     append_items key items (query_string @ key @ ''[]='' @ replace_space item @ ''&'')"

fun build_query_string :: "(string \<times> dumped) list \<Rightarrow> string \<Rightarrow> string" where
  "build_query_string [] query_string = query_string"
| "build_query_string ((key, v) # rest) query_string =
     build_query_string rest
       (case v of
          DList items \<Rightarrow> append_items key items query_string
        | DStr s \<Rightarrow> query_string @ key @ ''='' @ replace_space s @ ''&''
        | DInt n \<Rightarrow> query_string @ key @ ''='' @ replace_space (str_int n) @ ''&'')"

definition personal_data_query_string :: "personal_data_EndpointParams \<Rightarrow> string" where
  "personal_data_query_string p = build_query_string (personal_data_model_dump p) []"

definition personal_data_endpoint :: "personal_data_EndpointParams \<Rightarrow> string" where
  "personal_data_endpoint p =
     (let query_string = personal_data_query_string p
      in if query_string \<noteq> []
         then personal_data_BASE_URL @ ''?'' @ rstrip CHR ''&'' query_string
         else personal_data_BASE_URL)"

text \<open>The validator of the response model \<^verbatim>\<open>EndpointResponse\<close> is a parameter here.\<close>

definition personal_data_fetch_endpoint_data :: "string option \<Rightarrow> (pydict \<Rightarrow> 'r validated) \<Rightarrow> upstream
    \<Rightarrow> personal_data_EndpointParams \<Rightarrow> request list \<Rightarrow> (error + 'r) \<times> request list" where
  "personal_data_fetch_endpoint_data personal_api_key EndpointResponse_validate up p calls =
     (let endpoint = personal_data_endpoint p;
          (response, calls') = httpx_post up endpoint (personal_data_headers personal_api_key) calls
      in case response of
           Inl e \<Rightarrow> (Inl e, calls')
         | Inr r \<Rightarrow>
             (case json_of r of
                Inl e \<Rightarrow> (Inl e, calls')
              | Inr v \<Rightarrow> (construct EndpointResponse_validate v, calls')))"

definition personal_data_handle_endpoint :: "coercions \<Rightarrow> string option \<Rightarrow> (pydict \<Rightarrow> 'r validated)
    \<Rightarrow> ('r \<Rightarrow> string) \<Rightarrow> upstream \<Rightarrow> pydict option \<Rightarrow> request list
    \<Rightarrow> (error + content list) \<times> request list" where
  "personal_data_handle_endpoint C personal_api_key EndpointResponse_validate str_of up arguments calls =
     (case construct (personal_data_EndpointParams_validate C) (VDict (or_empty arguments)) of
        Inl e \<Rightarrow> (Inl e, calls)
      | Inr p \<Rightarrow>
          respond str_of
            (personal_data_fetch_endpoint_data personal_api_key EndpointResponse_validate up p calls))"

section \<open>Repeated keys, as the specification words them\<close>

text \<open>
  Written from the specification: a list-valued field contributes one fragment
  \<^verbatim>\<open>field[]=item&\<close> per item, a single-valued field one fragment \<^verbatim>\<open>field=value&\<close>, and a field
  that is None contributes nothing. Spaces in items and values are written \<^verbatim>\<open>%20\<close>.
\<close>

definition key_fragments :: "string \<Rightarrow> string list \<Rightarrow> string list" where
  "key_fragments key items = map (\<lambda>item. key @ ''[]='' @ replace_space item @ ''&'') items"

definition repeated_keys :: "string \<Rightarrow> string list option \<Rightarrow> string" where
  "repeated_keys key v = (case v of None \<Rightarrow> [] | Some items \<Rightarrow> concat (key_fragments key items))"

definition single_key :: "string \<Rightarrow> string option \<Rightarrow> string" where
  "single_key key v = (case v of None \<Rightarrow> [] | Some s \<Rightarrow> key @ ''='' @ replace_space s @ ''&'')"

text \<open>
  Reading the query string back: \<^verbatim>\<open>q.split('&')\<close> gives its pairs, and a pair belongs to a
  list-valued field when it starts with \<^verbatim>\<open>field[]=\<close>. The pairs are what the fragments are
  without their closing \<^verbatim>\<open>&\<close>.
\<close>

fun split_on :: "char \<Rightarrow> string \<Rightarrow> string list" where
  "split_on c [] = [[]]"
| "split_on c (x # xs) =
     (if x = c then [] # split_on c xs
      else (case split_on c xs of [] \<Rightarrow> [[x]] | y # ys \<Rightarrow> (x # y) # ys))"

definition has_key :: "string \<Rightarrow> string \<Rightarrow> bool" where
  "has_key key pair \<longleftrightarrow> take (length key + 3) pair = key @ ''[]=''"

definition count_key :: "string \<Rightarrow> string \<Rightarrow> nat" where
  "count_key key q = length (filter (has_key key) (split_on CHR ''&'' q))"

definition list_pairs :: "string \<Rightarrow> string list option \<Rightarrow> string list" where
  "list_pairs key v = (case v of None \<Rightarrow> []
     | Some items \<Rightarrow> map (\<lambda>item. key @ ''[]='' @ replace_space item) items)"

definition single_pair :: "string \<Rightarrow> string option \<Rightarrow> string list" where
  "single_pair key v = (case v of None \<Rightarrow> [] | Some s \<Rightarrow> [key @ ''='' @ replace_space s])"

definition query_pairs :: "personal_data_EndpointParams \<Rightarrow> string list" where
  "query_pairs p =
     list_pairs ''person_titles'' (personal_data_EndpointParams_person_titles p)
     @ list_pairs ''person_locations'' (personal_data_EndpointParams_person_locations p)
     @ list_pairs ''person_seniorities'' (personal_data_EndpointParams_person_seniorities p)
     @ list_pairs ''organization_locations'' (personal_data_EndpointParams_organization_locations p)
     @ list_pairs ''q_organization_domains'' (personal_data_EndpointParams_q_organization_domains p)
     @ list_pairs ''contact_email_status'' (personal_data_EndpointParams_contact_email_status p)
     @ list_pairs ''organization_ids'' (personal_data_EndpointParams_organization_ids p)
     @ list_pairs ''organization_num_employees_ranges''
         (personal_data_EndpointParams_organization_num_employees_ranges p)
     @ single_pair ''q_keywords'' (personal_data_EndpointParams_q_keywords p)
     @ single_pair ''page'' (map_option str_int (personal_data_EndpointParams_page p))
     @ single_pair ''per_page'' (map_option str_int (personal_data_EndpointParams_per_page p))"

definition list_length :: "string list option \<Rightarrow> nat" where
  "list_length v = (case v of None \<Rightarrow> 0 | Some items \<Rightarrow> length items)"

text \<open>No item of a list-valued field and no keyword holds an \<^verbatim>\<open>&\<close>.\<close>

definition ampersand_free :: "personal_data_EndpointParams \<Rightarrow> bool" where
  "ampersand_free p \<longleftrightarrow>
     (\<forall>v \<in> set [personal_data_EndpointParams_person_titles p,
                 personal_data_EndpointParams_person_locations p,
                 personal_data_EndpointParams_person_seniorities p,
                 personal_data_EndpointParams_organization_locations p,
                 personal_data_EndpointParams_q_organization_domains p,
                 personal_data_EndpointParams_contact_email_status p,
                 personal_data_EndpointParams_organization_ids p,
                 personal_data_EndpointParams_organization_num_employees_ranges p].
        \<forall>items. v = Some items \<longrightarrow> (\<forall>item \<in> set items. CHR ''&'' \<notin> set item))
     \<and> (\<forall>s. personal_data_EndpointParams_q_keywords p = Some s \<longrightarrow> CHR ''&'' \<notin> set s)"

text \<open>What one entry of the dumped parameters adds to the query string.\<close>

fun entry_string :: "string \<times> dumped \<Rightarrow> string" where
  "entry_string (key, DList items) = concat (key_fragments key items)"
| "entry_string (key, DStr s) = key @ ''='' @ replace_space s @ ''&''"
| "entry_string (key, DInt n) = key @ ''='' @ replace_space (str_int n) @ ''&''"

section \<open>URL encoding, as the specification words it\<close>

text \<open>
  Written from the specification, not from the code: a value is URL-encoded when every
  byte that is not an unreserved character (letters, digits, \<^verbatim>\<open>-._~\<close>) is replaced by a
  percent sign and its two hexadecimal digits.
\<close>

definition unreserved :: "char \<Rightarrow> bool" where
  "unreserved c \<longleftrightarrow>
     c \<in> set ''ABCDEFGHIJKLMNOPQRSTUVWXYZabcdefghijklmnopqrstuvwxyz0123456789-._~''"

definition percent_encode :: "string \<Rightarrow> string" where
  "percent_encode s = concat (map (\<lambda>c. if unreserved c then [c]
     else percent_byte c) s)"

section \<open>Concrete inputs\<close>

text \<open>
  A library whose string parsers accept nothing and which converts an integer to the float
  of the same value, for the examples below.
\<close>

definition no_string_coercions :: coercions where
  "no_string_coercions =
     \<lparr>str_as_int = (\<lambda>s. Inl Int_parsing), str_as_float = (\<lambda>s. Inl Float_parsing),
      str_as_bool = (\<lambda>s. Inl Bool_parsing), int_as_float = (\<lambda>n. Some (Finite (real_of_int n)))\<rparr>"

text \<open>A rendering that shows nothing, where the text of the content item does not matter.\<close>

definition render_nothing :: "'a \<Rightarrow> string" where
  "render_nothing r = []"

text \<open>The city name of the transit scenario, with its u-umlaut as the two bytes of UTF-8.\<close>

definition zurich :: string where
  "zurich = [CHR ''Z'', CHR 0xC3, CHR 0xBC] @ ''rich''"

definition example_connections :: Public_TransitResponse where
  "example_connections = \<lparr>Public_TransitResponse_connections =
     [\<lparr>PublicTransitResult_start =
         \<lparr>Departure_station = \<lparr>Location_id = ''8503000'', Location_name = zurich @ '' HB''\<rparr>,
          Departure_departure = ''2024-11-23T10:02:00+0100'', Departure_platform = ''9''\<rparr>,
       PublicTransitResult_to =
         \<lparr>Arrival_station = \<lparr>Location_id = ''8500010'', Location_name = ''Basel SBB''\<rparr>,
          Arrival_arrival = ''2024-11-23T10:55:00+0100'', Arrival_platform = ''7''\<rparr>,
       PublicTransitResult_duration = ''00d00:53:00'',
       PublicTransitResult_transfers = 0,
       PublicTransitResult_sections =
         [\<lparr>TransitOption_journey =
            \<lparr>Route_name = ''IC 3'', Route_category = ''IC'', Route_number = ''3'',
             Route_operator = ''SBB'', Route_to = ''Basel SBB'',
             Route_passList =
               [\<lparr>Stop_station = \<lparr>Location_id = ''8503000'', Location_name = zurich @ '' HB''\<rparr>,
                 Stop_arrival = None, Stop_departure = Some ''2024-11-23T10:02:00+0100'',
                 Stop_delay = Some 0\<rparr>]\<rparr>\<rparr>]\<rparr>]\<rparr>"

text \<open>An upstream that answers every request with these connections.\<close>

definition transit_mock :: upstream where
  "transit_mock n rq = Response 200 (Some (Public_TransitResponse_json example_connections))"

text \<open>Three pages of emissions: the first two name the next page, the third does not.\<close>

definition emissions_item :: "int \<Rightarrow> string \<Rightarrow> pyval" where
  "emissions_item i c = VDict
     [(''id'', VInt i), (''iso_code3'', VStr ''EUU''), (''country'', VStr c),
      (''data_source'', VStr ''Climate Watch''), (''sector'', VStr ''Total including LUCF''),
      (''gas'', VStr ''CO2''), (''unit'', VStr ''MtCO2e''),
      (''emissions'', VList [VDict [(''year'', VInt 2009), (''value'', VFloat (Finite 3.5))]])]"

definition emissions_result :: "int \<Rightarrow> string \<Rightarrow> emissions_EndpointResult" where
  "emissions_result i c =
     \<lparr>emissions_EndpointResult_id = i, emissions_EndpointResult_iso_code3 = ''EUU'',
      emissions_EndpointResult_country = c, emissions_EndpointResult_data_source = ''Climate Watch'',
      emissions_EndpointResult_sector = ''Total including LUCF'', emissions_EndpointResult_gas = ''CO2'',
      emissions_EndpointResult_unit = ''MtCO2e'',
      emissions_EndpointResult_emissions = [\<lparr>YearlyEmissions_year = 2009, YearlyEmissions_value = Finite 3.5\<rparr>]\<rparr>"

definition page1 :: pyval where
  "page1 = VDict [(''data'', VList [emissions_item 1 ''Austria'', emissions_item 2 ''Belgium'']),
                  (''next'', VStr ''https://www.climatewatchdata.org/page2'')]"

definition page2 :: pyval where
  "page2 = VDict [(''data'', VList [emissions_item 3 ''Croatia'']),
                  (''next'', VStr ''https://www.climatewatchdata.org/page3'')]"

definition page3 :: pyval where
  "page3 = VDict [(''data'', VList [emissions_item 4 ''Denmark''])]"

definition three_pages :: upstream where
  "three_pages n rq =
     (if n = 0 then Response 200 (Some page1)
      else if n = 1 then Response 200 (Some page2)
      else if n = 2 then Response 200 (Some page3)
      else Raised)"

text \<open>The people search of the module's own main block, with one empty list added.\<close>

definition example_search :: personal_data_EndpointParams where
  "example_search =
     \<lparr>personal_data_EndpointParams_person_titles = Some [''software engineer'', ''marketing manager''],
      personal_data_EndpointParams_person_locations = Some [''california'', ''ireland''],
      personal_data_EndpointParams_person_seniorities = Some [''senior''],
      personal_data_EndpointParams_organization_locations = None,
      personal_data_EndpointParams_q_organization_domains = Some [],
      personal_data_EndpointParams_contact_email_status = Some [''verified'', ''unverified'', ''likely to engage''],
      personal_data_EndpointParams_organization_ids = None,
      personal_data_EndpointParams_organization_num_employees_ranges = None,
      personal_data_EndpointParams_q_keywords = None,
      personal_data_EndpointParams_page = Some 1,
      personal_data_EndpointParams_per_page = Some 1\<rparr>"

text \<open>An upstream on which every client call raises, and a response model that accepts any JSON object.\<close>

definition unreachable_upstream :: upstream where
  "unreachable_upstream n rq = Raised"

definition any_response :: "pydict \<Rightarrow> pydict validated" where
  "any_response d = Inr d"

text \<open>A response whose one connection has no name for the station it starts from.\<close>

definition nameless_station :: pydict where
  "nameless_station =
     [(''connections'', VList [VDict
        [(''from'', VDict
            [(''station'', VDict [(''id'', VStr ''8503000'')]),
             (''departure'', VStr ''2024-11-23T10:02:00+0100''),
             (''platform'', VStr ''9'')]),
         (''to'', VDict
            [(''station'', VDict [(''id'', VStr ''8500010''), (''name'', VStr ''Basel SBB'')]),
             (''arrival'', VStr ''2024-11-23T10:55:00+0100''),
             (''platform'', VStr ''7'')]),
         (''duration'', VStr ''00d00:53:00''),
         (''transfers'', VInt 0),
         (''sections'', VList [])]])]"

text \<open>The people search that the mapping with the one title \<^verbatim>\<open>cto&person_titles[]=ceo\<close> constructs.\<close>

definition injected_search :: personal_data_EndpointParams where
  "injected_search =
     \<lparr>personal_data_EndpointParams_person_titles = Some [''cto&person_titles[]=ceo''],
      personal_data_EndpointParams_person_locations = None,
      personal_data_EndpointParams_person_seniorities = None,
      personal_data_EndpointParams_organization_locations = None,
      personal_data_EndpointParams_q_organization_domains = None,
      personal_data_EndpointParams_contact_email_status = None,
      personal_data_EndpointParams_organization_ids = None,
      personal_data_EndpointParams_organization_num_employees_ranges = None,
      personal_data_EndpointParams_q_keywords = None,
      personal_data_EndpointParams_page = Some 1,
      personal_data_EndpointParams_per_page = None\<rparr>"

section \<open>Properties of the validation library\<close>

declare str_nat.simps [simp del]

lemma ap_Inr_iff: "ap rf ra = Inr b \<longleftrightarrow> (\<exists>f a. rf = Inr f \<and> ra = Inr a \<and> b = f a)"
  by (auto simp: ap_def split: sum.splits)

lemma isl_ap: "isl (ap rf ra) \<longleftrightarrow> isl rf \<or> isl ra"
  by (auto simp: ap_def split: sum.splits)

lemma errs_of_ap_left: "e \<in> set (errs_of rf) \<Longrightarrow> e \<in> set (errs_of (ap rf ra))"
  by (auto simp: ap_def errs_of_def split: sum.splits)

lemma errs_of_ap_right: "e \<in> set (errs_of ra) \<Longrightarrow> e \<in> set (errs_of (ap rf ra))"
  by (auto simp: ap_def errs_of_def split: sum.splits)

lemma errs_of_Inl_ex: "e \<in> set (errs_of r) \<Longrightarrow> \<exists>es. r = Inl es \<and> e \<in> set es"
  by (cases r) (auto simp: errs_of_def)

lemma proper_ap: "proper rf \<Longrightarrow> proper ra \<Longrightarrow> proper (ap rf ra)"
  by (auto simp: ap_def proper_def errs_of_def split: sum.splits)

lemma proper_Inr [simp]: "proper (Inr a)"
  by (simp add: proper_def)

lemma proper_fail [simp]: "proper (fail k)"
  by (simp add: proper_def fail_def)

lemma proper_at_loc: "proper r \<Longrightarrow> proper (at_loc l r)"
  by (cases r) (auto simp: proper_def at_loc_def)

lemma proper_map_sum: "proper r \<Longrightarrow> proper (map_sum id f r)"
  by (cases r) (auto simp: proper_def)

lemma proper_validate_str [simp]: "proper (validate_str v)"
  by (cases v) auto

lemma proper_parsed [simp]: "proper (parsed r)"
  by (cases r) (simp_all add: parsed_def)

lemma proper_int_as_bool [simp]: "proper (int_as_bool n)"
  by (simp add: int_as_bool_def)

lemma proper_validate_int [simp]: "proper (validate_int C v)"
  by (cases v) auto

lemma proper_validate_bool [simp]: "proper (validate_bool C v)"
  by (cases v) (auto split: sum.splits)

lemma proper_validate_float [simp]: "proper (validate_float C v)"
  by (cases v) (auto split: option.splits)

lemma proper_check_ge: "proper r \<Longrightarrow> proper (check_ge lo r)"
  by (cases r) (auto simp: check_ge_def proper_def fail_def)

lemma proper_check_le: "proper r \<Longrightarrow> proper (check_le hi r)"
  by (cases r) (auto simp: check_le_def proper_def fail_def)

lemma proper_validate_optional: "(\<And>v. proper (f v)) \<Longrightarrow> proper (validate_optional f v)"
  by (cases v) (auto simp: validate_optional_def intro: proper_map_sum)

lemma proper_with_default: "(\<And>v. proper (f v)) \<Longrightarrow> proper (with_default k dflt f d)"
  by (auto simp: with_default_def split: option.splits intro: proper_at_loc)

lemma proper_required: "(\<And>v. proper (f v)) \<Longrightarrow> proper (required k f d)"
  by (auto simp: required_def proper_def[of "Inl _"] split: option.splits intro: proper_at_loc)

lemma proper_validate_items: "(\<And>v. proper (f v)) \<Longrightarrow> proper (validate_items f i vs)"
  by (induction vs arbitrary: i) (auto intro!: proper_ap proper_at_loc)

lemma proper_validate_list: "(\<And>v. proper (f v)) \<Longrightarrow> proper (validate_list f v)"
  by (cases v) (auto simp: validate_list_def intro: proper_validate_items)

lemma proper_validate_model: "(\<And>d. proper (f d)) \<Longrightarrow> proper (validate_model f v)"
  by (cases v) (auto simp: validate_model_def)

lemmas proper_intros = proper_ap proper_with_default proper_required proper_validate_optional
  proper_check_ge proper_check_le proper_map_sum

lemma check_ge_Inr: "check_ge lo r = Inr n \<Longrightarrow> lo \<le> n"
  by (auto simp: check_ge_def fail_def split: sum.splits if_splits)

lemma check_le_Inr: "check_le hi r = Inr n \<Longrightarrow> n \<le> hi \<and> r = Inr n"
  by (auto simp: check_le_def fail_def split: sum.splits if_splits)

lemma at_loc_Inr_iff [simp]: "at_loc l r = Inr a \<longleftrightarrow> r = Inr a"
  by (cases r) (auto simp: at_loc_def)

lemma with_default_Inr: "with_default k dflt f d = Inr a \<Longrightarrow>
  (map_of d k = None \<and> a = dflt) \<or> (\<exists>v. map_of d k = Some v \<and> f v = Inr a)"
  by (auto simp: with_default_def split: option.splits)

lemma map_of_known_keys:
  "map_of (known_keys names d) k = (if k \<in> set names then map_of d k else None)"
  by (induction d) (auto simp: known_keys_def)

lemma with_default_known_keys:
  "k \<in> set names \<Longrightarrow> with_default k dflt f (known_keys names d) = with_default k dflt f d"
  by (simp add: with_default_def map_of_known_keys)

lemma required_known_keys:
  "k \<in> set names \<Longrightarrow> required k f (known_keys names d) = required k f d"
  by (simp add: required_def map_of_known_keys)

subsection \<open>Validators and declared types\<close>

text \<open>Each validator fails on exactly the values that do not satisfy the declared type.\<close>

lemma isl_parsed: "isl (parsed r) \<longleftrightarrow> isl r"
  by (cases r) (simp_all add: parsed_def fail_def)

lemma isl_fail [simp]: "isl (fail k)"
  by (simp add: fail_def)

lemma isl_at_loc [simp]: "isl (at_loc l r) \<longleftrightarrow> isl r"
  by (cases r) (simp_all add: at_loc_def)

lemma isl_map_sum [simp]: "isl (map_sum f g r) \<longleftrightarrow> isl r"
  by (cases r) simp_all

lemma validate_str_accepts: "isl (validate_str v) \<longleftrightarrow> \<not> accepts C TStr v"
  by (cases v) simp_all

lemma float_as_int_lax:
  "float_as_int f = Inr n \<longleftrightarrow> lax_int C (VFloat f) = Some n"
  by (cases f) (auto simp: float_as_int_def)

lemma validate_int_lax: "validate_int C v = Inr n \<longleftrightarrow> lax_int C v = Some n"
proof (cases v)
  case (VFloat f)
  then show ?thesis
    using float_as_int_lax[of f n C] by (cases "float_as_int f") (auto simp: parsed_def fail_def)
next
  case (VStr s)
  then show ?thesis
    by (cases "str_as_int C s") (auto simp: parsed_def fail_def)
qed (auto simp: fail_def)

lemma validate_int_cases:
  obtains (fails) es where "validate_int C v = Inl es" "lax_int C v = None"
  | (reads) n where "validate_int C v = Inr n" "lax_int C v = Some n"
proof (cases "validate_int C v")
  case (Inl es)
  have "lax_int C v = None"
  proof (cases "lax_int C v")
    case (Some n)
    with validate_int_lax[of C v n] Inl show ?thesis by simp
  qed simp
  with Inl show ?thesis by (rule fails)
next
  case (Inr n)
  with validate_int_lax[of C v n] show ?thesis by (intro reads) simp_all
qed

lemma validate_int_accepts: "isl (validate_int C v) \<longleftrightarrow> \<not> accepts C (TInt None None) v"
  by (rule validate_int_cases[of C v]) (simp_all add: in_bounds_def)

lemma limit_accepts:
  "isl (check_le hi (check_ge lo (validate_int C v))) \<longleftrightarrow> \<not> accepts C (TInt (Some lo) (Some hi)) v"
  by (rule validate_int_cases[of C v])
     (auto simp: in_bounds_def check_le_def check_ge_def fail_def)

lemma offset_accepts:
  "isl (check_ge lo (validate_int C v)) \<longleftrightarrow> \<not> accepts C (TInt (Some lo) None) v"
  by (rule validate_int_cases[of C v])
     (auto simp: in_bounds_def check_ge_def fail_def)

lemma float_as_int_0_1:
  "float_as_int f = Inr 0 \<longleftrightarrow> f = Finite 0" "float_as_int f = Inr 1 \<longleftrightarrow> f = Finite 1"
  by (cases f; auto simp: float_as_int_def floor_eq_iff Ints_def)+

lemma validate_bool_accepts: "isl (validate_bool C v) \<longleftrightarrow> \<not> accepts C TBool v"
proof (cases v)
  case (VFloat f)
  then show ?thesis
    using float_as_int_0_1[of f]
    by (cases "float_as_int f") (auto simp: int_as_bool_def fail_def)
next
  case (VStr s)
  then show ?thesis
    by (cases "str_as_bool C s") (auto simp: parsed_def fail_def)
qed (auto simp: int_as_bool_def fail_def)

lemma validate_optional_accepts:
  assumes "\<And>v. isl (f v) \<longleftrightarrow> \<not> accepts C T v"
  shows "isl (validate_optional f v) \<longleftrightarrow> \<not> accepts C (TOptional T) v"
  using assms[of v] by (cases v) (simp_all add: validate_optional_def)

lemma isl_validate_items: "isl (validate_items f i vs) \<longleftrightarrow> (\<exists>v \<in> set vs. isl (f v))"
  by (induction vs arbitrary: i) (auto simp: isl_ap)

lemma validate_list_accepts:
  assumes "\<And>v. isl (f v) \<longleftrightarrow> \<not> accepts C T v"
  shows "isl (validate_list f v) \<longleftrightarrow> \<not> accepts C (TList T) v"
  by (cases v) (auto simp: validate_list_def isl_validate_items assms list_all_iff)

lemma with_default_accepts:
  assumes "\<And>v. isl (f v) \<longleftrightarrow> \<not> accepts C T v"
  shows "isl (with_default k dflt f d)
    \<longleftrightarrow> \<not> (case map_of d k of None \<Rightarrow> \<not> False | Some v \<Rightarrow> accepts C T v)"
  by (simp add: with_default_def assms split: option.splits)

lemma required_accepts:
  assumes "\<And>v. isl (f v) \<longleftrightarrow> \<not> accepts C T v"
  shows "isl (required k f d)
    \<longleftrightarrow> \<not> (case map_of d k of None \<Rightarrow> \<not> True | Some v \<Rightarrow> accepts C T v)"
  by (simp add: required_def assms split: option.splits)

lemmas optional_str_accepts = validate_optional_accepts[of validate_str _ TStr, OF validate_str_accepts]

lemmas optional_int_accepts =
  validate_optional_accepts[of "validate_int C" C "TInt None None", OF validate_int_accepts] for C

lemmas optional_list_accepts =
  validate_optional_accepts[of "validate_list validate_str" _ "TList TStr",
    OF validate_list_accepts[of validate_str _ TStr, OF validate_str_accepts]]

lemma isl_construct: "isl (construct f (VDict d)) \<longleftrightarrow> isl (f d)"
  by (cases "f d") (simp_all add: construct_def)

lemma construct_proper:
  assumes "proper (f d)"
  shows "case construct f (VDict d) of Inl e \<Rightarrow> \<exists>es. e = ValidationError es \<and> es \<noteq> [] | Inr p \<Rightarrow> True"
  using assms by (cases "f d") (simp_all add: construct_def proper_def)

section \<open>Input validation\<close>

lemma proper_params:
  "proper (TrafficInfoParams_validate C d)"
  "proper (RailwayLineParams_validate C d)"
  "proper (Public_TransitParams_validate d)"
  "proper (emissions_EndpointParams_validate d)"
  "proper (ChargingStationParams_validate C d)"
  "proper (personal_data_EndpointParams_validate C d)"
  unfolding TrafficInfoParams_validate_def RailwayLineParams_validate_def
    Public_TransitParams_validate_def emissions_EndpointParams_validate_def
    ChargingStationParams_validate_def personal_data_EndpointParams_validate_def
  by (intro proper_intros proper_Inr proper_validate_str proper_validate_int proper_validate_bool
      proper_validate_list)+

lemmas field_accepts =
  with_default_accepts[OF optional_str_accepts] with_default_accepts[OF optional_int_accepts]
  with_default_accepts[OF optional_list_accepts] with_default_accepts[OF validate_str_accepts]
  with_default_accepts[OF validate_int_accepts] with_default_accepts[OF validate_bool_accepts]
  with_default_accepts[OF limit_accepts] with_default_accepts[OF offset_accepts]
  required_accepts[OF validate_str_accepts]

lemma to_field_accepts:
  "isl (with_default ''to'' None (\<lambda>v. map_sum id Some (validate_str v)) d)
    \<longleftrightarrow> \<not> (case map_of d ''to'' of None \<Rightarrow> \<not> False | Some v \<Rightarrow> accepts C TStr v)"
  using with_default_accepts[of "\<lambda>v. map_sum id Some (validate_str v)" C TStr "''to''" None d]
  by (simp add: validate_str_accepts[of _ C])

lemma params_satisfies:
  "isl (TrafficInfoParams_validate C d) \<longleftrightarrow> \<not> satisfies C TrafficInfoParams_fields d"
  "isl (RailwayLineParams_validate C d) \<longleftrightarrow> \<not> satisfies C RailwayLineParams_fields d"
  "isl (Public_TransitParams_validate d) \<longleftrightarrow> \<not> satisfies C Public_TransitParams_fields d"
  "isl (emissions_EndpointParams_validate d) \<longleftrightarrow> \<not> satisfies C emissions_EndpointParams_fields d"
  "isl (ChargingStationParams_validate C d) \<longleftrightarrow> \<not> satisfies C ChargingStationParams_fields d"
  "isl (personal_data_EndpointParams_validate C d) \<longleftrightarrow> \<not> satisfies C personal_data_EndpointParams_fields d"
  unfolding TrafficInfoParams_validate_def RailwayLineParams_validate_def
    Public_TransitParams_validate_def emissions_EndpointParams_validate_def
    ChargingStationParams_validate_def personal_data_EndpointParams_validate_def
    TrafficInfoParams_fields_def RailwayLineParams_fields_def Public_TransitParams_fields_def
    emissions_EndpointParams_fields_def ChargingStationParams_fields_def
    personal_data_EndpointParams_fields_def satisfies_def isl_ap
  by (simp_all add: field_accepts[where C = C] to_field_accepts[where C = C]) blast+

lemma params_known_keys:
  "TrafficInfoParams_validate C (known_keys (map fst TrafficInfoParams_fields) d) = TrafficInfoParams_validate C d"
  "RailwayLineParams_validate C (known_keys (map fst RailwayLineParams_fields) d) = RailwayLineParams_validate C d"
  "Public_TransitParams_validate (known_keys (map fst Public_TransitParams_fields) d) = Public_TransitParams_validate d"
  "emissions_EndpointParams_validate (known_keys (map fst emissions_EndpointParams_fields) d) = emissions_EndpointParams_validate d"
  "ChargingStationParams_validate C (known_keys (map fst ChargingStationParams_fields) d) = ChargingStationParams_validate C d"
  "personal_data_EndpointParams_validate C (known_keys (map fst personal_data_EndpointParams_fields) d) = personal_data_EndpointParams_validate C d"
  unfolding TrafficInfoParams_validate_def RailwayLineParams_validate_def
    Public_TransitParams_validate_def emissions_EndpointParams_validate_def
    ChargingStationParams_validate_def personal_data_EndpointParams_validate_def
    TrafficInfoParams_fields_def RailwayLineParams_fields_def Public_TransitParams_fields_def
    emissions_EndpointParams_fields_def ChargingStationParams_fields_def
    personal_data_EndpointParams_fields_def
  by (simp_all add: with_default_known_keys required_known_keys)

lemma bounds_Inr:
  "with_default k dflt (\<lambda>v. check_le hi (check_ge lo (validate_int C v))) d = Inr n
    \<Longrightarrow> lo \<le> dflt \<Longrightarrow> dflt \<le> hi \<Longrightarrow> lo \<le> n \<and> n \<le> hi"
  "with_default k dflt (\<lambda>v. check_ge lo (validate_int C v)) d = Inr n \<Longrightarrow> lo \<le> dflt \<Longrightarrow> lo \<le> n"
  by (auto dest!: with_default_Inr check_le_Inr dest: check_ge_Inr)

lemma TrafficInfoParams_validate_range:
  assumes "TrafficInfoParams_validate C d = Inr p"
  shows "1 \<le> TrafficInfoParams_limit p \<and> TrafficInfoParams_limit p \<le> 100
    \<and> 0 \<le> TrafficInfoParams_offset p"
proof -
  from assms obtain l off where
    l: "with_default ''limit'' 10 (\<lambda>v. check_le 100 (check_ge 1 (validate_int C v))) d = Inr l"
    and off: "with_default ''offset'' 0 (\<lambda>v. check_ge 0 (validate_int C v)) d = Inr off"
    and p: "TrafficInfoParams_limit p = l" "TrafficInfoParams_offset p = off"
    unfolding TrafficInfoParams_validate_def ap_Inr_iff by auto
  from bounds_Inr(1)[OF l] bounds_Inr(2)[OF off] p show ?thesis by simp
qed

lemma RailwayLineParams_validate_range:
  assumes "RailwayLineParams_validate C d = Inr p"
  shows "1 \<le> RailwayLineParams_limit p \<and> RailwayLineParams_limit p \<le> 100
    \<and> 0 \<le> RailwayLineParams_offset p"
proof -
  from assms obtain l off where
    l: "with_default ''limit'' 10 (\<lambda>v. check_le 100 (check_ge 1 (validate_int C v))) d = Inr l"
    and off: "with_default ''offset'' 0 (\<lambda>v. check_ge 0 (validate_int C v)) d = Inr off"
    and p: "RailwayLineParams_limit p = l" "RailwayLineParams_offset p = off"
    unfolding RailwayLineParams_validate_def ap_Inr_iff by auto
  from bounds_Inr(1)[OF l] bounds_Inr(2)[OF off] p show ?thesis by simp
qed

text \<open>What construction from a mapping comes to, for any model and its declared fields.\<close>

lemma construct_decided:
  assumes "proper (f d)" and "isl (f d) \<longleftrightarrow> \<not> satisfies C decls d"
  shows "case construct f (VDict d) of
      Inl e \<Rightarrow> (\<exists>es. e = ValidationError es \<and> es \<noteq> []) \<and> \<not> satisfies C decls d
    | Inr p \<Rightarrow> satisfies C decls d"
  using assms by (cases "f d") (simp_all add: construct_def proper_def)

lemma limit_field_fails:
  assumes "map_of d ''limit'' = Some (VInt n)" and "n < 1 \<or> 100 < n"
  shows "([Field ''limit''], if n < 1 then Greater_than_equal 1 else Less_than_equal 100)
    \<in> set (errs_of (with_default ''limit'' 10
              (\<lambda>v. check_le 100 (check_ge 1 (validate_int C v))) d))"
  using assms
  by (auto simp: with_default_def check_le_def check_ge_def fail_def at_loc_def errs_of_def)

lemma TrafficInfoParams_validate_limit:
  assumes "map_of d ''limit'' = Some (VInt n)" and "n < 1 \<or> 100 < n"
  shows "\<exists>es. TrafficInfoParams_validate C d = Inl es \<and>
    ([Field ''limit''], if n < 1 then Greater_than_equal 1 else Less_than_equal 100) \<in> set es"
  apply (rule errs_of_Inl_ex)
  unfolding TrafficInfoParams_validate_def
  by (intro errs_of_ap_left errs_of_ap_right limit_field_fails[OF assms])





text \<open>
  A float beyond the 64-bit range is no integer for the library, whatever its value: the
  offset \<^verbatim>\<open>1e30\<close> fails, and the handler sends nothing.
\<close>

lemma large_float_offset_fails:
  "handle_rail_traffic_info C validate_datetime str_of up
      (Some [(''offset'', VFloat (Finite (10 ^ 30)))]) calls
     = (Inl (ValidationError [([Field ''offset''], Int_parsing_size)]), calls)"
  by (simp add: handle_rail_traffic_info_def construct_def TrafficInfoParams_validate_def
      with_default_def check_ge_def at_loc_def ap_def parsed_def float_as_int_def fail_def
      errs_of_def)

text \<open>
  C4. When the arguments hold an integer \<open>limit\<close> below 1 or above 100, the rail traffic
  handler raises a ValidationError that names \<open>limit\<close> with the violated bound, and the
  list of HTTP calls is what it was: no request is made.
\<close>

theorem limit_out_of_range_no_request:
  assumes "map_of d ''limit'' = Some (VInt n)" and "n < 1 \<or> 100 < n"
  shows "\<exists>es. handle_rail_traffic_info C validate_datetime str_of up (Some d) calls
           = (Inl (ValidationError es), calls)
         \<and> ([Field ''limit''], if n < 1 then Greater_than_equal 1 else Less_than_equal 100) \<in> set es"
proof -
  from TrafficInfoParams_validate_limit[OF assms, of C] obtain es where
    "TrafficInfoParams_validate C d = Inl es"
    "([Field ''limit''], if n < 1 then Greater_than_equal 1 else Less_than_equal 100) \<in> set es"
    by blast
  then show ?thesis
    by (simp add: handle_rail_traffic_info_def construct_def)
qed

theorem limit_out_of_range_no_request_witness:
  "map_of [(''limit'', VInt 101)] ''limit'' = Some (VInt 101) \<and> ((101::int) < 1 \<or> (100::int) < 101)
   \<and> (\<exists>es. handle_rail_traffic_info no_string_coercions (\<lambda>v. Inr ()) (\<lambda>r. []) (\<lambda>n rq. Raised)
              (Some [(''limit'', VInt 101)]) []
            = (Inl (ValidationError es), [])
          \<and> ([Field ''limit''], Less_than_equal 100) \<in> set es)"
  using limit_out_of_range_no_request[of "[(''limit'', VInt 101)]" 101 no_string_coercions
      "\<lambda>v. Inr ()" "\<lambda>r. []" "\<lambda>n rq. Raised" "[]"]
  by simp

section \<open>Requests and responses\<close>

lemma httpx_get_eq: "httpx_get up u ps calls = (up (length calls) (get_request u ps), calls @ [get_request u ps])"
  by (simp add: httpx_get_def send_def get_request_def)

lemma snd_respond: "snd (respond str_of res) = snd res"
  by (cases res; cases "fst res") (auto simp: respond_def)

lemma fst_respond: "fst (respond str_of res) = map_sum id (\<lambda>r. [TextContent (str_of r)]) (fst res)"
  by (cases res; cases "fst res") (auto simp: respond_def)

lemma snd_fetch_rail_traffic_info:
  "snd (fetch_rail_traffic_info C validate_datetime up p calls) =
     calls @ [get_request (sbb_BASE_URL @ ''/catalog/datasets/rail-traffic-information/records'')
                (TrafficInfoParams_model_dump p)]"
  by (simp add: fetch_rail_traffic_info_def httpx_get_eq Let_def split: sum.splits)

section \<open>Validation of JSON that matches a model\<close>

lemma at_loc_Inr [simp]: "at_loc l (Inr a) = Inr a"
  by (simp add: at_loc_def)

lemma ap_Inr_Inr [simp]: "ap (Inr f) (Inr a) = Inr (f a)"
  by (simp add: ap_def)

lemma validate_model_VDict [simp]: "validate_model f (VDict d) = f d"
  by (simp add: validate_model_def)

lemma validate_items_map:
  assumes "\<And>x. f (g x) = Inr x"
  shows "validate_items f i (map g xs) = Inr xs"
  by (induction xs arbitrary: i) (simp_all add: assms)

lemma validate_list_map:
  assumes "\<And>x. f (g x) = Inr x"
  shows "validate_list f (VList (map g xs)) = Inr xs"
  by (simp add: validate_list_def validate_items_map[of f g, OF assms])

lemma validate_optional_json [simp]:
  "validate_optional validate_str (json_optional VStr v) = Inr v"
  "validate_optional (validate_int C) (json_optional VInt w) = Inr w"
  by (cases v; cases w; simp add: validate_optional_def json_optional_def)+

lemma required_Cons: "required k f ((k', v) # d) = (if k = k' then at_loc (Field k) (f v) else required k f d)"
  by (simp add: required_def)

lemma with_default_Cons: "with_default k dflt f ((k', v) # d) = (if k = k' then at_loc (Field k) (f v) else with_default k dflt f d)"
  by (simp add: with_default_def)

lemma required_missing: "map_of d k = None \<Longrightarrow> required k f d = Inl [([Field k], Missing)]"
  by (simp add: required_def)

lemma errs_of_at_loc: "(loc, e) \<in> set (errs_of r) \<Longrightarrow> (l # loc, e) \<in> set (errs_of (at_loc l r))"
  by (cases r) (auto simp: errs_of_def at_loc_def intro!: rev_image_eqI)

lemma errs_of_required:
  "map_of d k = Some v \<Longrightarrow> (loc, e) \<in> set (errs_of (f v))
    \<Longrightarrow> (Field k # loc, e) \<in> set (errs_of (required k f d))"
  by (simp add: required_def errs_of_at_loc)

lemma errs_of_required_missing:
  "map_of d k = None \<Longrightarrow> ([Field k], Missing) \<in> set (errs_of (required k f d))"
  by (simp add: required_def errs_of_def)

lemma errs_of_validate_items:
  "j < length vs \<Longrightarrow> (loc, e) \<in> set (errs_of (f (vs ! j)))
    \<Longrightarrow> (Index (i + j) # loc, e) \<in> set (errs_of (validate_items f i vs))"
proof (induction vs arbitrary: i j)
  case Nil
  then show ?case by simp
next
  case (Cons v vs)
  show ?case
  proof (cases j)
    case 0
    with Cons.prems have "(Index i # loc, e) \<in> set (errs_of (at_loc (Index i) (f v)))"
      by (simp add: errs_of_at_loc)
    then have "(Index i # loc, e) \<in> set (errs_of (ap (Inr (#)) (at_loc (Index i) (f v))))"
      by (rule errs_of_ap_right)
    then show ?thesis
      using 0 by (simp add: errs_of_ap_left)
  next
    case (Suc j')
    with Cons.prems Cons.IH[of j' "Suc i"]
    have "(Index (i + j) # loc, e) \<in> set (errs_of (validate_items f (Suc i) vs))"
      by simp
    then show ?thesis
      by (simp add: errs_of_ap_right)
  qed
qed

lemma errs_of_validate_list:
  "j < length vs \<Longrightarrow> (loc, e) \<in> set (errs_of (f (vs ! j)))
    \<Longrightarrow> (Index j # loc, e) \<in> set (errs_of (validate_list f (VList vs)))"
  using errs_of_validate_items[of j vs loc e f 0] by (simp add: validate_list_def)

lemma set_errs_of_ap: "set (errs_of (ap rf ra)) = set (errs_of rf) \<union> set (errs_of ra)"
  by (auto simp: ap_def errs_of_def split: sum.splits)

section \<open>Handlers called without arguments\<close>

text \<open>
  C3 fails on this handler. \<^verbatim>\<open>handle_rail_traffic_info\<close> called with None raises TypeError and
  makes no request, while the same handler called with the empty mapping builds the
  parameters from the defaults and sends them in one GET.
\<close>

theorem handle_rail_traffic_info_None:
  "handle_rail_traffic_info C validate_datetime str_of up None calls = (Inl TypeError, calls)
   \<and> snd (handle_rail_traffic_info C validate_datetime str_of up (Some []) calls)
       = calls @ [get_request
           (sbb_BASE_URL @ ''/catalog/datasets/rail-traffic-information/records'')
           [(''limit'', VInt 10), (''offset'', VInt 0), (''timezone'', VStr ''UTC''),
            (''include_links'', VBool False), (''include_app_metas'', VBool False)]]"
  by (simp add: handle_rail_traffic_info_def construct_def TrafficInfoParams_validate_def
      with_default_def snd_respond snd_fetch_rail_traffic_info
      TrafficInfoParams_model_dump_def dump_optional_def)

text \<open>The handler of the railway lines, in the same module, unpacks its arguments the same way.\<close>

lemma handle_railway_lines_None:
  "handle_railway_lines C RailwayLineResponse_validate str_of up None calls = (Inl TypeError, calls)"
  by (simp add: handle_railway_lines_def construct_def)

text \<open>The handlers of the other providers unpack \<^verbatim>\<open>arguments or {}\<close>: None is the empty mapping.\<close>

lemma handlers_or_empty:
  "handle_transitdata C str_of up None calls = handle_transitdata C str_of up (Some []) calls"
  "emissions_handle_endpoint C str_of' up None calls = emissions_handle_endpoint C str_of' up (Some []) calls"
  "handle_query_charing_station C V str_of'' up None calls = handle_query_charing_station C V str_of'' up (Some []) calls"
  "personal_data_handle_endpoint C key V' str_of''' up None calls = personal_data_handle_endpoint C key V' str_of''' up (Some []) calls"
  by (simp_all add: handle_transitdata_def emissions_handle_endpoint_def
      handle_query_charing_station_def personal_data_handle_endpoint_def or_empty_def)

section \<open>Public transit: parsing the response\<close>

lemma Location_roundtrip: "validate_model Location_validate (Location_json x) = Inr x"
  by (simp add: Location_json_def Location_validate_def required_Cons)

lemma Stop_roundtrip: "validate_model (Stop_validate C) (Stop_json x) = Inr x"
  by (simp add: Stop_json_def Stop_validate_def required_Cons with_default_Cons
      Location_roundtrip)

lemma Departure_roundtrip: "validate_model Departure_validate (Departure_json x) = Inr x"
  by (simp add: Departure_json_def Departure_validate_def required_Cons
      Location_roundtrip)

lemma Arrival_roundtrip: "validate_model Arrival_validate (Arrival_json x) = Inr x"
  by (simp add: Arrival_json_def Arrival_validate_def required_Cons
      Location_roundtrip)

lemma Route_roundtrip: "validate_model (Route_validate C) (Route_json x) = Inr x"
  by (simp add: Route_json_def Route_validate_def required_Cons
      validate_list_map[of _ Stop_json, OF Stop_roundtrip])

lemma TransitOption_roundtrip: "validate_model (TransitOption_validate C) (TransitOption_json x) = Inr x"
  by (simp add: TransitOption_json_def TransitOption_validate_def required_Cons
      Route_roundtrip)

lemma PublicTransitResult_roundtrip:
  "validate_model (PublicTransitResult_validate C) (PublicTransitResult_json x) = Inr x"
  by (simp add: PublicTransitResult_json_def PublicTransitResult_validate_def
      required_Cons Departure_roundtrip Arrival_roundtrip
      validate_list_map[of _ TransitOption_json, OF TransitOption_roundtrip])

lemma Public_TransitResponse_roundtrip:
  "construct (Public_TransitResponse_validate C) (Public_TransitResponse_json x) = Inr x"
  by (simp add: construct_def Public_TransitResponse_json_def Public_TransitResponse_validate_def
      required_Cons validate_list_map[of _ PublicTransitResult_json, OF PublicTransitResult_roundtrip])

lemma PublicTransitResult_missing:
  assumes "k \<in> set [''from'', ''to'', ''duration'', ''transfers'', ''sections'']"
    and "map_of c k = None"
  shows "([Field k], Missing) \<in> set (errs_of (PublicTransitResult_validate C c))"
  using assms unfolding PublicTransitResult_validate_def set_errs_of_ap
  by (auto simp: errs_of_required_missing)

text \<open>A required key missing anywhere in the response is reported where it is missing.\<close>

inductive_cases missing_ScalarE: "missing Scalar v loc"

inductive_cases missing_ModelE: "missing (Model fs) v loc"

inductive_cases missing_ItemsE: "missing (Items sh) v loc"

lemma missing_items:
  assumes "missing (Items sh) v loc"
    and "\<And>w l. missing sh w l \<Longrightarrow> (l, Missing) \<in> set (errs_of (f w))"
  shows "(loc, Missing) \<in> set (errs_of (validate_list f v))"
  using assms by (auto elim!: missing_ItemsE intro: errs_of_validate_list)

lemma Location_missing:
  "missing Location_shape v loc
    \<Longrightarrow> (loc, Missing) \<in> set (errs_of (validate_model Location_validate v))"
  unfolding Location_shape_def
  by (erule missing_ModelE)
     (auto simp: Location_validate_def set_errs_of_ap errs_of_required_missing
       elim: missing_ScalarE)

lemma Stop_missing:
  "missing Stop_shape v loc
    \<Longrightarrow> (loc, Missing) \<in> set (errs_of (validate_model (Stop_validate C) v))"
  unfolding Stop_shape_def
  by (erule missing_ModelE)
     (auto simp: Stop_validate_def set_errs_of_ap errs_of_required_missing
       elim: missing_ScalarE intro: errs_of_required dest: Location_missing)

lemma Departure_missing:
  "missing Departure_shape v loc
    \<Longrightarrow> (loc, Missing) \<in> set (errs_of (validate_model Departure_validate v))"
  unfolding Departure_shape_def
  by (erule missing_ModelE)
     (auto simp: Departure_validate_def set_errs_of_ap errs_of_required_missing
       elim: missing_ScalarE intro: errs_of_required dest: Location_missing)

lemma Arrival_missing:
  "missing Arrival_shape v loc
    \<Longrightarrow> (loc, Missing) \<in> set (errs_of (validate_model Arrival_validate v))"
  unfolding Arrival_shape_def
  by (erule missing_ModelE)
     (auto simp: Arrival_validate_def set_errs_of_ap errs_of_required_missing
       elim: missing_ScalarE intro: errs_of_required dest: Location_missing)

lemma Route_missing:
  "missing Route_shape v loc
    \<Longrightarrow> (loc, Missing) \<in> set (errs_of (validate_model (Route_validate C) v))"
  unfolding Route_shape_def
  by (erule missing_ModelE)
     (auto simp: Route_validate_def set_errs_of_ap errs_of_required_missing
       elim: missing_ScalarE intro: errs_of_required missing_items dest: Stop_missing)

lemma TransitOption_missing:
  "missing TransitOption_shape v loc
    \<Longrightarrow> (loc, Missing) \<in> set (errs_of (validate_model (TransitOption_validate C) v))"
  unfolding TransitOption_shape_def
  by (erule missing_ModelE)
     (auto simp: TransitOption_validate_def set_errs_of_ap errs_of_required_missing
       elim: missing_ScalarE intro: errs_of_required dest: Route_missing)

lemma PublicTransitResult_missing_anywhere:
  "missing PublicTransitResult_shape v loc
    \<Longrightarrow> (loc, Missing) \<in> set (errs_of (validate_model (PublicTransitResult_validate C) v))"
  unfolding PublicTransitResult_shape_def
  by (erule missing_ModelE)
     (auto simp: PublicTransitResult_validate_def set_errs_of_ap errs_of_required_missing
       elim: missing_ScalarE
       intro: errs_of_required missing_items dest: Departure_missing Arrival_missing
         TransitOption_missing)

lemma Public_TransitResponse_missing:
  "missing Public_TransitResponse_shape v loc
    \<Longrightarrow> (loc, Missing) \<in> set (errs_of (validate_model (Public_TransitResponse_validate C) v))"
  unfolding Public_TransitResponse_shape_def
  by (erule missing_ModelE)
     (auto simp: Public_TransitResponse_validate_def set_errs_of_ap errs_of_required_missing
       elim: missing_ScalarE intro: errs_of_required missing_items
       dest: PublicTransitResult_missing_anywhere)

text \<open>
  C6. The JSON object that matches the transit response model exactly parses into the
  object it was written from, field for field. A JSON object that misses a required key
  at any location (\<^verbatim>\<open>connections\<close> itself, a key of a connection, of its departure or arrival,
  of a station, of a section's journey or of a stop in its pass list) raises a
  ValidationError that names the key as missing at that location. In particular an object
  without \<^verbatim>\<open>connections\<close> raises the error with that one entry.
\<close>

theorem Public_TransitResponse_parse:
  "construct (Public_TransitResponse_validate C) (Public_TransitResponse_json r) = Inr r
   \<and> (missing Public_TransitResponse_shape (VDict d) loc \<longrightarrow>
        (\<exists>es. construct (Public_TransitResponse_validate C) (VDict d) = Inl (ValidationError es)
           \<and> (loc, Missing) \<in> set es))
   \<and> (map_of d ''connections'' = None \<longrightarrow>
        construct (Public_TransitResponse_validate C) (VDict d)
          = Inl (ValidationError [([Field ''connections''], Missing)]))
   \<and> (map_of d ''connections'' = Some (VList cs) \<and> j < length cs \<and> cs ! j = VDict c
       \<and> k \<in> set [''from'', ''to'', ''duration'', ''transfers'', ''sections'']
       \<and> map_of c k = None \<longrightarrow>
        (\<exists>es. construct (Public_TransitResponse_validate C) (VDict d) = Inl (ValidationError es)
           \<and> ([Field ''connections'', Index j, Field k], Missing) \<in> set es))"
proof (intro conjI impI)
  show "construct (Public_TransitResponse_validate C) (Public_TransitResponse_json r) = Inr r"
    by (rule Public_TransitResponse_roundtrip)
next
  assume "missing Public_TransitResponse_shape (VDict d) loc"
  then have "(loc, Missing) \<in> set (errs_of (Public_TransitResponse_validate C d))"
    using Public_TransitResponse_missing[of "VDict d" loc C] by simp
  then obtain es where "Public_TransitResponse_validate C d = Inl es" "(loc, Missing) \<in> set es"
    by (blast dest: errs_of_Inl_ex)
  then show "\<exists>es. construct (Public_TransitResponse_validate C) (VDict d) = Inl (ValidationError es)
           \<and> (loc, Missing) \<in> set es"
    by (simp add: construct_def)
next
  assume "map_of d ''connections'' = None"
  then show "construct (Public_TransitResponse_validate C) (VDict d)
          = Inl (ValidationError [([Field ''connections''], Missing)])"
    by (simp add: construct_def Public_TransitResponse_validate_def required_missing ap_def errs_of_def)
next
  assume a: "map_of d ''connections'' = Some (VList cs) \<and> j < length cs \<and> cs ! j = VDict c
       \<and> k \<in> set [''from'', ''to'', ''duration'', ''transfers'', ''sections'']
       \<and> map_of c k = None"
  then have "([Field k], Missing) \<in> set (errs_of (validate_model (PublicTransitResult_validate C) (cs ! j)))"
    using PublicTransitResult_missing[of k c C] by simp
  with a have "([Index j, Field k], Missing)
      \<in> set (errs_of (validate_list (validate_model (PublicTransitResult_validate C)) (VList cs)))"
    by (simp add: errs_of_validate_list)
  with a have "([Field ''connections'', Index j, Field k], Missing)
      \<in> set (errs_of (required ''connections''
            (validate_list (validate_model (PublicTransitResult_validate C))) d))"
    by (simp add: errs_of_required)
  then have "([Field ''connections'', Index j, Field k], Missing)
      \<in> set (errs_of (Public_TransitResponse_validate C d))"
    unfolding Public_TransitResponse_validate_def by (rule errs_of_ap_right)
  then obtain es where "Public_TransitResponse_validate C d = Inl es"
    "([Field ''connections'', Index j, Field k], Missing) \<in> set es"
    by (blast dest: errs_of_Inl_ex)
  then show "\<exists>es. construct (Public_TransitResponse_validate C) (VDict d) = Inl (ValidationError es)
           \<and> ([Field ''connections'', Index j, Field k], Missing) \<in> set es"
    by (simp add: construct_def)
qed

text \<open>
  The witness: the example response parses; and the same response with the name of the
  departure station taken out misses \<^verbatim>\<open>connections[0].from.station.name\<close> and fails there.
\<close>

theorem Public_TransitResponse_parse_witness:
  "construct (Public_TransitResponse_validate no_string_coercions)
       (Public_TransitResponse_json example_connections) = Inr example_connections
   \<and> missing Public_TransitResponse_shape (VDict nameless_station)
        [Field ''connections'', Index 0, Field ''from'', Field ''station'', Field ''name'']
   \<and> (\<exists>es. construct (Public_TransitResponse_validate no_string_coercions) (VDict nameless_station)
          = Inl (ValidationError es)
        \<and> ([Field ''connections'', Index 0, Field ''from'', Field ''station'', Field ''name''], Missing)
            \<in> set es)
   \<and> map_of ([]::pydict) ''connections'' = None
   \<and> construct (Public_TransitResponse_validate no_string_coercions) (VDict [])
          = Inl (ValidationError [([Field ''connections''], Missing)])
   \<and> map_of [(''connections'', VList [VDict [(''to'', VNone)]])] ''connections''
       = Some (VList [VDict [(''to'', VNone)]])
   \<and> (0::nat) < length [VDict [(''to'', VNone)]]
   \<and> [VDict [(''to'', VNone)]] ! 0 = VDict [(''to'', VNone)]
   \<and> ''from'' \<in> set [''from'', ''to'', ''duration'', ''transfers'', ''sections'']
   \<and> map_of [(''to'', VNone)] ''from'' = None
   \<and> (\<exists>es. construct (Public_TransitResponse_validate no_string_coercions)
          (VDict [(''connections'', VList [VDict [(''to'', VNone)]])]) = Inl (ValidationError es)
           \<and> ([Field ''connections'', Index 0, Field ''from''], Missing) \<in> set es)"
proof -
  have m: "missing Public_TransitResponse_shape (VDict nameless_station)
        [Field ''connections'', Index 0, Field ''from'', Field ''station'', Field ''name'']"
    unfolding Public_TransitResponse_shape_def PublicTransitResult_shape_def Departure_shape_def
      Location_shape_def nameless_station_def
    by (rule missing_inside[where req = True] missing_item missing_here | simp)+
  from m Public_TransitResponse_parse[of no_string_coercions example_connections nameless_station
      "[Field ''connections'', Index 0, Field ''from'', Field ''station'', Field ''name'']"]
  have 1: "\<exists>es. construct (Public_TransitResponse_validate no_string_coercions) (VDict nameless_station)
          = Inl (ValidationError es)
        \<and> ([Field ''connections'', Index 0, Field ''from'', Field ''station'', Field ''name''], Missing)
            \<in> set es"
    by blast
  from Public_TransitResponse_parse[of no_string_coercions example_connections "[]"]
  have 2: "construct (Public_TransitResponse_validate no_string_coercions)
       (Public_TransitResponse_json example_connections) = Inr example_connections"
    "construct (Public_TransitResponse_validate no_string_coercions) (VDict [])
          = Inl (ValidationError [([Field ''connections''], Missing)])"
    by simp_all
  from Public_TransitResponse_parse[of no_string_coercions example_connections
      "[(''connections'', VList [VDict [(''to'', VNone)]])]" _ "[VDict [(''to'', VNone)]]" 0
      "[(''to'', VNone)]" "''from''"]
  have 3: "\<exists>es. construct (Public_TransitResponse_validate no_string_coercions)
          (VDict [(''connections'', VList [VDict [(''to'', VNone)]])]) = Inl (ValidationError es)
           \<and> ([Field ''connections'', Index 0, Field ''from''], Missing) \<in> set es"
    by simp
  from m 1 2 3 show ?thesis by simp
qed

section \<open>Public transit: the end-to-end scenario\<close>

lemma percent_encode_zurich: "percent_encode zurich = ''Z%C3%BCrich''"
  by (simp add: percent_encode_def zurich_def unreserved_def hex_digit_def percent_byte_def)

lemma percent_encode_basel: "percent_encode ''Basel'' = ''Basel''"
  by (simp add: percent_encode_def unreserved_def)

lemma fetch_transit_data_eq:
  "fetch_transit_data C up p calls =
     (case json_of (up (length calls) (get_request (transit_endpoint p) [])) of
        Inl e \<Rightarrow> Inl e
      | Inr v \<Rightarrow> construct (Public_TransitResponse_validate C) v,
      calls @ [get_request (transit_endpoint p) []])"
  by (simp add: fetch_transit_data_def httpx_get_eq split: sum.splits)

lemma Public_TransitParams_construct:
  "construct Public_TransitParams_validate (VDict (or_empty (Some [(''origin'', VStr a), (''to'', VStr b)])))
     = Inr \<lparr>Public_TransitParams_origin = a, Public_TransitParams_to = Some b\<rparr>"
  by (simp add: construct_def or_empty_def Public_TransitParams_validate_def required_Cons with_default_Cons)

text \<open>The query of the scenario's URL, as the client sends it.\<close>

lemma issued_query_zurich:
  "issued_query (transit_BASE_URL @ ''from='' @ zurich @ ''&to=Basel'') = Some ''from=Z%C3%BCrich&to=Basel''"
  by (simp add: issued_query_def url_query_def quote_query_def query_safe_def percent_byte_def
      hex_digit_def transit_BASE_URL_def zurich_def)

text \<open>
  C5. Called with the origin \<open>zurich\<close>, the city's name with its u-umlaut, and the
  destination Basel, the transit handler makes exactly one GET. The URL it hands to the
  client is the base URL followed by \<^verbatim>\<open>from=\<close>, the origin, \<^verbatim>\<open>&to=\<close> and the destination; the
  request goes out to the base URL with the query in which both values are URL-encoded,
  \<^verbatim>\<open>from=Z%C3%BCrich&to=Basel\<close>. When the upstream answers with a 2xx status and a JSON body
  that matches the response model, the handler returns one text content item, the
  rendering of the parsed response.
\<close>

theorem handle_transitdata_scenario:
  "snd (handle_transitdata C str_of up (Some [(''origin'', VStr zurich), (''to'', VStr ''Basel'')]) calls)
     = calls @ [get_request (transit_BASE_URL @ ''from='' @ zurich @ ''&to=Basel'') []]
   \<and> takeWhile (\<lambda>c. c \<noteq> CHR ''?'') (transit_BASE_URL @ ''from='' @ zurich @ ''&to=Basel'') @ ''?''
     = transit_BASE_URL
   \<and> issued_query (transit_BASE_URL @ ''from='' @ zurich @ ''&to=Basel'')
     = Some (''from='' @ percent_encode zurich @ ''&to='' @ percent_encode ''Basel'')
   \<and> ''from='' @ percent_encode zurich @ ''&to='' @ percent_encode ''Basel''
     = ''from=Z%C3%BCrich&to=Basel''
   \<and> (up (length calls) (get_request (transit_BASE_URL @ ''from='' @ zurich @ ''&to=Basel'') [])
         = Response st (Some (Public_TransitResponse_json r)) \<and> 200 \<le> st \<and> st < 300
      \<longrightarrow> fst (handle_transitdata C str_of up
                (Some [(''origin'', VStr zurich), (''to'', VStr ''Basel'')]) calls)
           = Inr [TextContent (str_of r)])"
proof (intro conjI impI)
  show "snd (handle_transitdata C str_of up (Some [(''origin'', VStr zurich), (''to'', VStr ''Basel'')]) calls)
     = calls @ [get_request (transit_BASE_URL @ ''from='' @ zurich @ ''&to=Basel'') []]"
    by (simp add: handle_transitdata_def Public_TransitParams_construct fetch_transit_data_eq
        snd_respond transit_endpoint_def format_optional_def)
  show "takeWhile (\<lambda>c. c \<noteq> CHR ''?'') (transit_BASE_URL @ ''from='' @ zurich @ ''&to=Basel'') @ ''?''
     = transit_BASE_URL"
    by (simp add: transit_BASE_URL_def)
  show encoded: "''from='' @ percent_encode zurich @ ''&to='' @ percent_encode ''Basel''
     = ''from=Z%C3%BCrich&to=Basel''"
    by (simp add: percent_encode_zurich percent_encode_basel)
  show "issued_query (transit_BASE_URL @ ''from='' @ zurich @ ''&to=Basel'')
     = Some (''from='' @ percent_encode zurich @ ''&to='' @ percent_encode ''Basel'')"
    unfolding encoded by (rule issued_query_zurich)
next
  assume "up (length calls) (get_request (transit_BASE_URL @ ''from='' @ zurich @ ''&to=Basel'') [])
         = Response st (Some (Public_TransitResponse_json r)) \<and> 200 \<le> st \<and> st < 300"
  then show "fst (handle_transitdata C str_of up
                (Some [(''origin'', VStr zurich), (''to'', VStr ''Basel'')]) calls)
           = Inr [TextContent (str_of r)]"
    by (simp add: handle_transitdata_def Public_TransitParams_construct fetch_transit_data_eq
        fst_respond transit_endpoint_def format_optional_def json_of_def
        Public_TransitResponse_roundtrip)
qed

theorem handle_transitdata_scenario_witness:
  "transit_mock (length ([]::request list))
       (get_request (transit_BASE_URL @ ''from='' @ zurich @ ''&to=Basel'') [])
         = Response 200 (Some (Public_TransitResponse_json example_connections))
   \<and> (200::nat) \<le> 200 \<and> (200::nat) < 300
   \<and> handle_transitdata no_string_coercions render_nothing transit_mock
        (Some [(''origin'', VStr zurich), (''to'', VStr ''Basel'')]) []
      = (Inr [TextContent (render_nothing example_connections)],
         [get_request (transit_BASE_URL @ ''from='' @ zurich @ ''&to=Basel'') []])
   \<and> issued_query (transit_BASE_URL @ ''from='' @ zurich @ ''&to=Basel'')
      = Some ''from=Z%C3%BCrich&to=Basel''"
proof -
  note scenario = handle_transitdata_scenario[of no_string_coercions render_nothing transit_mock
      "[]" 200 example_connections]
  have mock: "transit_mock (length ([]::request list))
       (get_request (transit_BASE_URL @ ''from='' @ zurich @ ''&to=Basel'') [])
         = Response 200 (Some (Public_TransitResponse_json example_connections))"
    by (simp add: transit_mock_def)
  from scenario have calls: "snd (handle_transitdata no_string_coercions render_nothing transit_mock
        (Some [(''origin'', VStr zurich), (''to'', VStr ''Basel'')]) [])
      = [get_request (transit_BASE_URL @ ''from='' @ zurich @ ''&to=Basel'') []]"
    by simp
  from scenario mock have result: "fst (handle_transitdata no_string_coercions render_nothing
        transit_mock (Some [(''origin'', VStr zurich), (''to'', VStr ''Basel'')]) [])
      = Inr [TextContent (render_nothing example_connections)]"
    by simp
  from scenario have "issued_query (transit_BASE_URL @ ''from='' @ zurich @ ''&to=Basel'')
      = Some (''from='' @ percent_encode zurich @ ''&to='' @ percent_encode ''Basel'')"
    and "''from='' @ percent_encode zurich @ ''&to='' @ percent_encode ''Basel''
      = ''from=Z%C3%BCrich&to=Basel''"
    by blast+
  then have query: "issued_query (transit_BASE_URL @ ''from='' @ zurich @ ''&to=Basel'')
      = Some ''from=Z%C3%BCrich&to=Basel''"
    by (simp only:)
  from calls result have pair: "handle_transitdata no_string_coercions render_nothing transit_mock
        (Some [(''origin'', VStr zurich), (''to'', VStr ''Basel'')]) []
      = (Inr [TextContent (render_nothing example_connections)],
         [get_request (transit_BASE_URL @ ''from='' @ zurich @ ''&to=Basel'') []])"
    by (simp add: prod_eq_iff)
  show ?thesis
    by (intro conjI mock pair query) simp_all
qed

text \<open>
  What the provider itself writes is not encoded: the string it hands to the client holds
  the values as they were given, and a reserved character in a value is kept by the client
  too, so that it changes what the URL says.
\<close>

lemma transit_reserved_character_kept:
  "map request_url (snd (handle_transitdata C str_of up
        (Some [(''origin'', VStr ''Biel&to=Bern''), (''to'', VStr ''Basel'')]) []))
     = [''http://transport.opendata.ch/v1/connections?from=Biel&to=Bern&to=Basel'']
   \<and> issued_query ''http://transport.opendata.ch/v1/connections?from=Biel&to=Bern&to=Basel''
     = Some ''from=Biel&to=Bern&to=Basel''"
  by (simp add: handle_transitdata_def Public_TransitParams_construct fetch_transit_data_eq
      snd_respond transit_endpoint_def format_optional_def get_request_def transit_BASE_URL_def
      issued_query_def url_query_def quote_query_def query_safe_def)

section \<open>Historical emissions: the paged fetch\<close>

lemma emissions_item_valid:
  "validate_model (emissions_EndpointResult_validate C) (emissions_item i c) = Inr (emissions_result i c)"
  by (simp add: emissions_item_def emissions_result_def emissions_EndpointResult_validate_def
      YearlyEmissions_validate_def required_Cons validate_list_def)

lemma page_valid:
  "construct (emissions_EndpointResponse_validate C) page1
     = Inr \<lparr>emissions_EndpointResponse_data = [emissions_result 1 ''Austria'', emissions_result 2 ''Belgium'']\<rparr>"
  "construct (emissions_EndpointResponse_validate C) page2
     = Inr \<lparr>emissions_EndpointResponse_data = [emissions_result 3 ''Croatia'']\<rparr>"
  "construct (emissions_EndpointResponse_validate C) page3
     = Inr \<lparr>emissions_EndpointResponse_data = [emissions_result 4 ''Denmark'']\<rparr>"
  by (simp_all add: page1_def page2_def page3_def construct_def emissions_EndpointResponse_validate_def
      required_Cons validate_list_def emissions_item_valid)

lemma emissions_loop_stop:
  "\<not> truthy endpoint \<Longrightarrow> emissions_fetch_loop C up endpoint all_data calls = Some (Inr all_data, calls)"
  by (subst emissions_fetch_loop.simps) simp

lemma emissions_loop_page:
  assumes "u \<noteq> []"
    and "up (length calls) (get_request u []) = Response st (Some (VDict d))"
    and "200 \<le> st" "st < 300"
    and "emissions_EndpointResponse_validate C d = Inr r"
  shows "emissions_fetch_loop C up (VStr u) all_data calls =
     emissions_fetch_loop C up (dict_get d ''next'')
       (all_data @ [(''data'', emissions_EndpointResponse_data r)]) (calls @ [get_request u []])"
  using assms
  by (subst emissions_fetch_loop.simps)
     (simp add: httpx_get_eq json_of_def construct_def emissions_EndpointResponse_iter_def)

lemma emissions_three_pages:
  assumes p1: "up (length calls) (get_request (emissions_endpoint params) []) = Response st1 (Some (VDict d1))"
      "200 \<le> st1" "st1 < 300" "emissions_EndpointResponse_validate C d1 = Inr r1"
      "map_of d1 ''next'' = Some (VStr u2)" "u2 \<noteq> []"
    and p2: "up (Suc (length calls)) (get_request u2 []) = Response st2 (Some (VDict d2))"
      "200 \<le> st2" "st2 < 300" "emissions_EndpointResponse_validate C d2 = Inr r2"
      "map_of d2 ''next'' = Some (VStr u3)" "u3 \<noteq> []"
    and p3: "up (Suc (Suc (length calls))) (get_request u3 []) = Response st3 (Some (VDict d3))"
      "200 \<le> st3" "st3 < 300" "emissions_EndpointResponse_validate C d3 = Inr r3"
      "map_of d3 ''next'' = None"
    and nonempty: "emissions_endpoint params \<noteq> []"
  shows "emissions_fetch_endpoint_data C up params calls =
     Some (Inr [(''data'', emissions_EndpointResponse_data r1),
                (''data'', emissions_EndpointResponse_data r2),
                (''data'', emissions_EndpointResponse_data r3)],
           calls @ [get_request (emissions_endpoint params) [], get_request u2 [], get_request u3 []])"
proof -
  let ?a1 = "[(''data'', emissions_EndpointResponse_data r1)]"
  let ?c1 = "calls @ [get_request (emissions_endpoint params) []]"
  let ?a2 = "?a1 @ [(''data'', emissions_EndpointResponse_data r2)]"
  let ?c2 = "?c1 @ [get_request u2 []]"
  let ?a3 = "?a2 @ [(''data'', emissions_EndpointResponse_data r3)]"
  let ?c3 = "?c2 @ [get_request u3 []]"
  have "emissions_fetch_loop C up (VStr (emissions_endpoint params)) [] calls
      = emissions_fetch_loop C up (VStr u2) ?a1 ?c1"
    using emissions_loop_page[of "emissions_endpoint params" up calls st1 d1 C r1 "[]"] nonempty p1
    by (simp add: dict_get_def)
  also have "\<dots> = emissions_fetch_loop C up (VStr u3) ?a2 ?c2"
    using emissions_loop_page[of u2 up ?c1 st2 d2 C r2 ?a1] p1(6) p2
    by (simp add: dict_get_def)
  also have "\<dots> = emissions_fetch_loop C up VNone ?a3 ?c3"
    using emissions_loop_page[of u3 up ?c2 st3 d3 C r3 ?a2] p2(6) p3
    by (simp add: dict_get_def)
  also have "\<dots> = Some (Inr ?a3, ?c3)"
    by (simp add: emissions_loop_stop)
  finally show ?thesis
    by (simp add: emissions_fetch_endpoint_data_def)
qed

lemma set_rstrip: "set (rstrip c s) \<subseteq> set s"
  by (auto simp: rstrip_def dest: set_dropWhileD)

lemma rstrip_nonempty: "x \<in> set s \<Longrightarrow> x \<noteq> c \<Longrightarrow> rstrip c s \<noteq> []"
  by (auto simp: rstrip_def)

lemma emissions_endpoint_nonempty: "emissions_endpoint params \<noteq> []"
proof (cases params)
  case None
  then show ?thesis by (simp add: emissions_endpoint_def emissions_BASE_URL_def)
next
  case (Some p)
  have "CHR ''h'' \<in> set emissions_BASE_URL"
    by (simp add: emissions_BASE_URL_def)
  then have "rstrip CHR ''&''
           (emissions_BASE_URL @ ''&''
            @ year_part ''start_year'' (emissions_EndpointParams_start_year p)
            @ year_part ''end_year'' (emissions_EndpointParams_end_year p)) \<noteq> []"
    by (intro rstrip_nonempty[of "CHR ''h''"]) simp_all
  then show ?thesis using Some
    by (simp add: emissions_endpoint_def)
qed


lemma emissions_endpoint_years:
  "emissions_endpoint (Some \<lparr>emissions_EndpointParams_start_year = Some ''2009'',
                               emissions_EndpointParams_end_year = Some ''2010''\<rparr>)
     = ''https://www.climatewatchdata.org/api/v1/data/historical_emissions?regions=EUU&&start_year=2009&end_year=2010''"
  by (simp add: emissions_endpoint_def emissions_BASE_URL_def year_part_def rstrip_def)

text \<open>
  C1 on three pages of two, one and one results. The fetch ends and makes exactly three
  GET calls, each page validated once; what it returns is not the four results in a row
  but three pairs, one per page, of the field name \<^verbatim>\<open>data\<close> and that page's list of results.
\<close>

theorem emissions_paged_fetch_returns_pairs:
  "emissions_fetch_endpoint_data no_string_coercions three_pages
     (Some \<lparr>emissions_EndpointParams_start_year = Some ''2009'',
            emissions_EndpointParams_end_year = Some ''2010''\<rparr>) []
   = Some (Inr [(''data'', [emissions_result 1 ''Austria'', emissions_result 2 ''Belgium'']),
                (''data'', [emissions_result 3 ''Croatia'']),
                (''data'', [emissions_result 4 ''Denmark''])],
           [get_request ''https://www.climatewatchdata.org/api/v1/data/historical_emissions?regions=EUU&&start_year=2009&end_year=2010'' [],
            get_request ''https://www.climatewatchdata.org/page2'' [],
            get_request ''https://www.climatewatchdata.org/page3'' []])"
proof -
  let ?p = "Some \<lparr>emissions_EndpointParams_start_year = Some ''2009'',
                   emissions_EndpointParams_end_year = Some ''2010''\<rparr>"
  have v: "emissions_EndpointResponse_validate no_string_coercions
        [(''data'', VList [emissions_item 1 ''Austria'', emissions_item 2 ''Belgium'']),
         (''next'', VStr ''https://www.climatewatchdata.org/page2'')]
      = Inr \<lparr>emissions_EndpointResponse_data = [emissions_result 1 ''Austria'', emissions_result 2 ''Belgium'']\<rparr>"
    "emissions_EndpointResponse_validate no_string_coercions
        [(''data'', VList [emissions_item 3 ''Croatia'']),
         (''next'', VStr ''https://www.climatewatchdata.org/page3'')]
      = Inr \<lparr>emissions_EndpointResponse_data = [emissions_result 3 ''Croatia'']\<rparr>"
    "emissions_EndpointResponse_validate no_string_coercions
        [(''data'', VList [emissions_item 4 ''Denmark''])]
      = Inr \<lparr>emissions_EndpointResponse_data = [emissions_result 4 ''Denmark'']\<rparr>"
    by (simp_all add: emissions_EndpointResponse_validate_def required_Cons validate_list_def
        emissions_item_valid)
  have "emissions_fetch_endpoint_data no_string_coercions three_pages ?p [] =
     Some (Inr [(''data'', [emissions_result 1 ''Austria'', emissions_result 2 ''Belgium'']),
                (''data'', [emissions_result 3 ''Croatia'']),
                (''data'', [emissions_result 4 ''Denmark''])],
           [] @ [get_request (emissions_endpoint ?p) [],
                 get_request ''https://www.climatewatchdata.org/page2'' [],
                 get_request ''https://www.climatewatchdata.org/page3'' []])"
    using emissions_three_pages[of three_pages "[]" ?p 200 _ no_string_coercions _
        "''https://www.climatewatchdata.org/page2''" 200 _ _
        "''https://www.climatewatchdata.org/page3''" 200 _ _, OF _ _ _ v(1) _ _ _ _ _ v(2) _ _ _ _ _ v(3)]
    by (simp add: three_pages_def page1_def page2_def page3_def emissions_endpoint_nonempty)
  then show ?thesis
    by (simp only: emissions_endpoint_years append_Nil)
qed

section \<open>People search: the query string\<close>

lemma httpx_post_calls:
  "snd (httpx_post up u hs calls) = calls @ [post_request u hs]"
  by (simp add: httpx_post_def)

lemma snd_personal_data_fetch:
  "snd (personal_data_fetch_endpoint_data k V up p calls)
     = calls @ [post_request (personal_data_endpoint p) (personal_data_headers k)]"
  using httpx_post_calls[of up "personal_data_endpoint p" "personal_data_headers k" calls]
  by (cases "httpx_post up (personal_data_endpoint p) (personal_data_headers k) calls")
     (simp add: personal_data_fetch_endpoint_data_def Let_def split: sum.splits)

text \<open>Without a key in the environment the client raises TypeError, whatever the upstream is.\<close>

lemma personal_data_fetch_without_key:
  "fst (personal_data_fetch_endpoint_data None V up p calls) = Inl TypeError"
  by (simp add: personal_data_fetch_endpoint_data_def Let_def httpx_post_def
      personal_data_headers_def)

lemma append_items_eq: "append_items key items q = q @ concat (key_fragments key items)"
  by (induction items arbitrary: q) (simp_all add: key_fragments_def)

lemma build_query_string_eq: "build_query_string entries q = q @ concat (map entry_string entries)"
proof (induction entries arbitrary: q)
  case Nil
  then show ?case by simp
next
  case (Cons e entries)
  obtain key v where e: "e = (key, v)" by (cases e)
  show ?case
    by (cases v) (simp_all add: e Cons.IH append_items_eq)
qed

lemma concat_dump_field:
  "concat (map entry_string (dump_field key DList v)) = repeated_keys key v"
  "concat (map entry_string (dump_field key DStr w)) = single_key key w"
  "concat (map entry_string (dump_field key DInt n)) = single_key key (map_option str_int n)"
  by (simp_all add: dump_field_def repeated_keys_def single_key_def split: option.splits)

lemma length_key_fragments: "length (key_fragments key items) = length items"
  by (simp add: key_fragments_def)

lemma personal_data_query_string_eq:
  "personal_data_query_string p =
     repeated_keys ''person_titles'' (personal_data_EndpointParams_person_titles p)
     @ repeated_keys ''person_locations'' (personal_data_EndpointParams_person_locations p)
     @ repeated_keys ''person_seniorities'' (personal_data_EndpointParams_person_seniorities p)
     @ repeated_keys ''organization_locations'' (personal_data_EndpointParams_organization_locations p)
     @ repeated_keys ''q_organization_domains'' (personal_data_EndpointParams_q_organization_domains p)
     @ repeated_keys ''contact_email_status'' (personal_data_EndpointParams_contact_email_status p)
     @ repeated_keys ''organization_ids'' (personal_data_EndpointParams_organization_ids p)
     @ repeated_keys ''organization_num_employees_ranges''
         (personal_data_EndpointParams_organization_num_employees_ranges p)
     @ single_key ''q_keywords'' (personal_data_EndpointParams_q_keywords p)
     @ single_key ''page'' (map_option str_int (personal_data_EndpointParams_page p))
     @ single_key ''per_page'' (map_option str_int (personal_data_EndpointParams_per_page p))"
  by (simp add: personal_data_query_string_def personal_data_model_dump_def build_query_string_eq
      concat_dump_field)

lemma split_on_free: "c \<notin> set b \<Longrightarrow> split_on c b = [b]"
  by (induction b) auto

lemma split_on_append: "c \<notin> set b \<Longrightarrow> split_on c (b @ c # rest) = b # split_on c rest"
  by (induction b) auto

lemma split_on_joined:
  "bs \<noteq> [] \<Longrightarrow> \<forall>b \<in> set bs. c \<notin> set b
    \<Longrightarrow> split_on c (butlast (concat (map (\<lambda>b. b @ [c]) bs))) = bs"
proof (induction bs)
  case Nil
  then show ?case by simp
next
  case (Cons b bs)
  show ?case
  proof (cases bs)
    case Nil
    with Cons.prems show ?thesis by (simp add: split_on_free)
  next
    case (Cons b' bs')
    then have ne: "concat (map (\<lambda>b. b @ [c]) bs) \<noteq> []" by simp
    have "butlast (concat (map (\<lambda>b. b @ [c]) (b # bs)))
        = b @ c # butlast (concat (map (\<lambda>b. b @ [c]) bs))"
      using ne by (simp add: butlast_append)
    with Cons.prems Cons.IH Cons show ?thesis
      by (simp add: split_on_append del: butlast.simps)
  qed
qed

lemma rstrip_joined:
  assumes "bs \<noteq> []" and "\<forall>b \<in> set bs. c \<notin> set b \<and> b \<noteq> []"
  shows "rstrip c (concat (map (\<lambda>b. b @ [c]) bs)) = butlast (concat (map (\<lambda>b. b @ [c]) bs))"
proof -
  from assms(1) obtain bs' b where bs: "bs = bs' @ [b]"
    by (cases bs rule: rev_cases) auto
  with assms(2) have "b \<noteq> []" "c \<notin> set b" by auto
  then obtain b' x where b: "b = b' @ [x]" "x \<noteq> c"
    by (cases b rule: rev_cases) auto
  show ?thesis
    by (simp add: bs b rstrip_def butlast_append)
qed

lemma has_key_same: "has_key k (k @ CHR ''['' # CHR '']'' # CHR ''='' # x)"
  by (simp add: has_key_def)

lemma has_key_other:
  assumes "take (min (length k) (length k')) k \<noteq> take (min (length k) (length k')) k'"
  shows "\<not> has_key k (k' @ rest)"
proof
  let ?m = "min (length k) (length k')"
  assume "has_key k (k' @ rest)"
  then have "take ?m (take (length k + 3) (k' @ rest)) = take ?m (k @ ''[]='')"
    by (simp add: has_key_def)
  then have "take ?m k' = take ?m k"
    by (simp add: min_def split: if_splits)
  with assms show False by simp
qed

lemma filter_list_pairs_same: "filter (has_key k) (list_pairs k v) = list_pairs k v"
  by (cases v) (simp_all add: list_pairs_def filter_map o_def has_key_same)

lemma filter_list_pairs_other:
  "take (min (length k) (length k')) k \<noteq> take (min (length k) (length k')) k'
    \<Longrightarrow> filter (has_key k) (list_pairs k' v) = []"
  by (cases v) (simp_all add: list_pairs_def filter_map o_def has_key_other)

lemma filter_single_pair_other:
  "take (min (length k) (length k')) k \<noteq> take (min (length k) (length k')) k'
    \<Longrightarrow> filter (has_key k) (single_pair k' v) = []"
  by (cases v) (simp_all add: single_pair_def has_key_other)

lemma length_list_pairs: "length (list_pairs k v) = list_length v"
  by (cases v) (simp_all add: list_pairs_def list_length_def)

lemma amp_replace_space: "CHR ''&'' \<notin> set s \<Longrightarrow> CHR ''&'' \<notin> set (replace_space s)"
  by (induction s) (auto simp: replace_space_def)

lemma set_str_nat: "set (str_nat n) \<subseteq> set ''0123456789''"
proof (induction n rule: str_nat.induct)
  case (1 n)
  have digit: "''0123456789'' ! k \<in> set ''0123456789''" if "k < 10" for k
    using that by (intro nth_mem) simp
  show ?case
  proof (cases "n < 10")
    case True
    then show ?thesis
      using digit[of n] by (subst str_nat.simps) simp
  next
    case False
    with 1 digit[of "n mod 10"] show ?thesis
      by (subst str_nat.simps) simp
  qed
qed

lemma amp_str_int: "CHR ''&'' \<notin> set (str_int i)"
  using set_str_nat[of "nat i"] set_str_nat[of "nat (- i)"]
  by (auto simp: str_int_def)

lemma list_pairs_free:
  assumes "CHR ''&'' \<notin> set k" and "\<And>items. v = Some items \<Longrightarrow> \<forall>item \<in> set items. CHR ''&'' \<notin> set item"
    and "b \<in> set (list_pairs k v)"
  shows "CHR ''&'' \<notin> set b \<and> b \<noteq> []"
  using assms by (cases v) (auto simp: list_pairs_def amp_replace_space)

lemma single_pair_free:
  assumes "CHR ''&'' \<notin> set k" and "\<And>s. v = Some s \<Longrightarrow> CHR ''&'' \<notin> set s"
    and "b \<in> set (single_pair k v)"
  shows "CHR ''&'' \<notin> set b \<and> b \<noteq> []"
  using assms by (cases v) (auto simp: single_pair_def amp_replace_space)

lemma query_pairs_free:
  assumes "ampersand_free p" and "b \<in> set (query_pairs p)"
  shows "CHR ''&'' \<notin> set b \<and> b \<noteq> []"
proof -
  from assms(2) consider
      "b \<in> set (list_pairs ''person_titles'' (personal_data_EndpointParams_person_titles p))"
    | "b \<in> set (list_pairs ''person_locations'' (personal_data_EndpointParams_person_locations p))"
    | "b \<in> set (list_pairs ''person_seniorities'' (personal_data_EndpointParams_person_seniorities p))"
    | "b \<in> set (list_pairs ''organization_locations'' (personal_data_EndpointParams_organization_locations p))"
    | "b \<in> set (list_pairs ''q_organization_domains'' (personal_data_EndpointParams_q_organization_domains p))"
    | "b \<in> set (list_pairs ''contact_email_status'' (personal_data_EndpointParams_contact_email_status p))"
    | "b \<in> set (list_pairs ''organization_ids'' (personal_data_EndpointParams_organization_ids p))"
    | "b \<in> set (list_pairs ''organization_num_employees_ranges''
         (personal_data_EndpointParams_organization_num_employees_ranges p))"
    | "b \<in> set (single_pair ''q_keywords'' (personal_data_EndpointParams_q_keywords p))"
    | "b \<in> set (single_pair ''page'' (map_option str_int (personal_data_EndpointParams_page p)))"
    | "b \<in> set (single_pair ''per_page'' (map_option str_int (personal_data_EndpointParams_per_page p)))"
    by (auto simp: query_pairs_def)
  then show ?thesis
  proof cases
    case 1 with assms(1) show ?thesis by (intro list_pairs_free) (auto simp: ampersand_free_def)
  next
    case 2 with assms(1) show ?thesis by (intro list_pairs_free) (auto simp: ampersand_free_def)
  next
    case 3 with assms(1) show ?thesis by (intro list_pairs_free) (auto simp: ampersand_free_def)
  next
    case 4 with assms(1) show ?thesis by (intro list_pairs_free) (auto simp: ampersand_free_def)
  next
    case 5 with assms(1) show ?thesis by (intro list_pairs_free) (auto simp: ampersand_free_def)
  next
    case 6 with assms(1) show ?thesis by (intro list_pairs_free) (auto simp: ampersand_free_def)
  next
    case 7 with assms(1) show ?thesis by (intro list_pairs_free) (auto simp: ampersand_free_def)
  next
    case 8 with assms(1) show ?thesis by (intro list_pairs_free) (auto simp: ampersand_free_def)
  next
    case 9 with assms(1) show ?thesis by (intro single_pair_free) (auto simp: ampersand_free_def)
  next
    case 10 then show ?thesis by (intro single_pair_free) (auto simp: amp_str_int)
  next
    case 11 then show ?thesis by (intro single_pair_free) (auto simp: amp_str_int)
  qed
qed

lemma repeated_keys_pairs: "repeated_keys k v = concat (map (\<lambda>b. b @ ''&'') (list_pairs k v))"
  by (cases v) (simp_all add: repeated_keys_def key_fragments_def list_pairs_def o_def)

lemma single_key_pairs: "single_key k v = concat (map (\<lambda>b. b @ ''&'') (single_pair k v))"
  by (cases v) (simp_all add: single_key_def single_pair_def)

lemma query_string_pairs:
  "personal_data_query_string p = concat (map (\<lambda>b. b @ ''&'') (query_pairs p))"
  by (simp add: personal_data_query_string_eq query_pairs_def repeated_keys_pairs single_key_pairs)

lemma split_query:
  assumes "ampersand_free p"
  shows "filter (has_key k) (split_on CHR ''&'' (rstrip CHR ''&'' (personal_data_query_string p)))
     = filter (has_key k) (query_pairs p)"
proof (cases "query_pairs p = []")
  case True
  then show ?thesis
    by (simp add: query_string_pairs rstrip_def has_key_def)
next
  case False
  have free: "\<forall>b \<in> set (query_pairs p). CHR ''&'' \<notin> set b \<and> b \<noteq> []"
    using query_pairs_free[OF assms] by blast
  then have free': "\<forall>b \<in> set (query_pairs p). CHR ''&'' \<notin> set b" by blast
  show ?thesis
    unfolding query_string_pairs rstrip_joined[OF False free] split_on_joined[OF False free'] ..
qed

lemma count_key_query:
  assumes "ampersand_free p"
  shows "count_key k (rstrip CHR ''&'' (personal_data_query_string p))
     = length (filter (has_key k) (query_pairs p))"
  by (simp add: count_key_def split_query[OF assms])

lemma count_pairs:
  "length (filter (has_key ''person_titles'') (query_pairs p))
     = list_length (personal_data_EndpointParams_person_titles p)"
  "length (filter (has_key ''person_locations'') (query_pairs p))
     = list_length (personal_data_EndpointParams_person_locations p)"
  "length (filter (has_key ''person_seniorities'') (query_pairs p))
     = list_length (personal_data_EndpointParams_person_seniorities p)"
  "length (filter (has_key ''organization_locations'') (query_pairs p))
     = list_length (personal_data_EndpointParams_organization_locations p)"
  "length (filter (has_key ''q_organization_domains'') (query_pairs p))
     = list_length (personal_data_EndpointParams_q_organization_domains p)"
  "length (filter (has_key ''contact_email_status'') (query_pairs p))
     = list_length (personal_data_EndpointParams_contact_email_status p)"
  "length (filter (has_key ''organization_ids'') (query_pairs p))
     = list_length (personal_data_EndpointParams_organization_ids p)"
  "length (filter (has_key ''organization_num_employees_ranges'') (query_pairs p))
     = list_length (personal_data_EndpointParams_organization_num_employees_ranges p)"
  by (simp_all add: query_pairs_def filter_list_pairs_same filter_list_pairs_other
      filter_single_pair_other length_list_pairs)

text \<open>
  Read back from the query string of the URL, where no item and no keyword holds an \<^verbatim>\<open>&\<close>,
  each list-valued field has as many pairs \<^verbatim>\<open>field[]=...\<close> as it has items, and none when it
  is None or empty.
\<close>

lemma repeated_keys_read_back:
  "personal_data_query_string p =
     repeated_keys ''person_titles'' (personal_data_EndpointParams_person_titles p)
     @ repeated_keys ''person_locations'' (personal_data_EndpointParams_person_locations p)
     @ repeated_keys ''person_seniorities'' (personal_data_EndpointParams_person_seniorities p)
     @ repeated_keys ''organization_locations'' (personal_data_EndpointParams_organization_locations p)
     @ repeated_keys ''q_organization_domains'' (personal_data_EndpointParams_q_organization_domains p)
     @ repeated_keys ''contact_email_status'' (personal_data_EndpointParams_contact_email_status p)
     @ repeated_keys ''organization_ids'' (personal_data_EndpointParams_organization_ids p)
     @ repeated_keys ''organization_num_employees_ranges''
         (personal_data_EndpointParams_organization_num_employees_ranges p)
     @ single_key ''q_keywords'' (personal_data_EndpointParams_q_keywords p)
     @ single_key ''page'' (map_option str_int (personal_data_EndpointParams_page p))
     @ single_key ''per_page'' (map_option str_int (personal_data_EndpointParams_per_page p))
   \<and> repeated_keys key (Some items) = concat (key_fragments key items)
   \<and> length (key_fragments key items) = length items
   \<and> repeated_keys key (Some []) = []
   \<and> (ampersand_free p \<longrightarrow>
        count_key ''person_titles'' (rstrip CHR ''&'' (personal_data_query_string p))
          = list_length (personal_data_EndpointParams_person_titles p) \<and>
        count_key ''person_locations'' (rstrip CHR ''&'' (personal_data_query_string p))
          = list_length (personal_data_EndpointParams_person_locations p) \<and>
        count_key ''person_seniorities'' (rstrip CHR ''&'' (personal_data_query_string p))
          = list_length (personal_data_EndpointParams_person_seniorities p) \<and>
        count_key ''organization_locations'' (rstrip CHR ''&'' (personal_data_query_string p))
          = list_length (personal_data_EndpointParams_organization_locations p) \<and>
        count_key ''q_organization_domains'' (rstrip CHR ''&'' (personal_data_query_string p))
          = list_length (personal_data_EndpointParams_q_organization_domains p) \<and>
        count_key ''contact_email_status'' (rstrip CHR ''&'' (personal_data_query_string p))
          = list_length (personal_data_EndpointParams_contact_email_status p) \<and>
        count_key ''organization_ids'' (rstrip CHR ''&'' (personal_data_query_string p))
          = list_length (personal_data_EndpointParams_organization_ids p) \<and>
        count_key ''organization_num_employees_ranges'' (rstrip CHR ''&'' (personal_data_query_string p))
          = list_length (personal_data_EndpointParams_organization_num_employees_ranges p))"
proof (intro conjI impI)
  show "repeated_keys key (Some items) = concat (key_fragments key items)"
    by (simp add: repeated_keys_def)
  show "length (key_fragments key items) = length items"
    by (rule length_key_fragments)
  show "repeated_keys key (Some []) = []"
    by (simp add: repeated_keys_def key_fragments_def)
qed (rule personal_data_query_string_eq, simp_all only: count_key_query count_pairs)

text \<open>
  C8 fails on an item that holds an \<^verbatim>\<open>&\<close>. The mapping with the one title
  \<^verbatim>\<open>cto&person_titles[]=ceo\<close> is a valid input: it constructs the parameters \<open>injected_search\<close>,
  whose list of titles has that one item. Only spaces are replaced, so the item is written
  into the URL as it is, the client leaves it so, and the query string of the one request
  holds two pairs \<^verbatim>\<open>person_titles[]=...\<close> for a list of one item.
\<close>

theorem ampersand_item_reads_back_as_two_keys:
  "construct (personal_data_EndpointParams_validate no_string_coercions)
      (VDict [(''person_titles'', VList [VStr ''cto&person_titles[]=ceo''])]) = Inr injected_search
   \<and> list_length (personal_data_EndpointParams_person_titles injected_search) = 1
   \<and> map request_url (snd (personal_data_fetch_endpoint_data (Some ''key'') any_response
          unreachable_upstream injected_search []))
     = [''https://api.apollo.io/api/v1/mixed_people/search?person_titles[]=cto&person_titles[]=ceo&page=1'']
   \<and> issued_query
        ''https://api.apollo.io/api/v1/mixed_people/search?person_titles[]=cto&person_titles[]=ceo&page=1''
     = Some ''person_titles[]=cto&person_titles[]=ceo&page=1''
   \<and> split_on CHR ''&'' ''person_titles[]=cto&person_titles[]=ceo&page=1''
     = [''person_titles[]=cto'', ''person_titles[]=ceo'', ''page=1'']
   \<and> count_key ''person_titles'' ''person_titles[]=cto&person_titles[]=ceo&page=1'' = 2"
proof (intro conjI)
  show "construct (personal_data_EndpointParams_validate no_string_coercions)
      (VDict [(''person_titles'', VList [VStr ''cto&person_titles[]=ceo''])]) = Inr injected_search"
    by (simp add: construct_def personal_data_EndpointParams_validate_def injected_search_def
        with_default_def validate_optional_def validate_list_def)
  show "list_length (personal_data_EndpointParams_person_titles injected_search) = 1"
    by (simp add: list_length_def injected_search_def)
  have q: "personal_data_query_string injected_search
      = ''person_titles[]=cto&person_titles[]=ceo&page=1&''"
    by (simp add: personal_data_query_string_def personal_data_model_dump_def injected_search_def
        dump_field_def replace_space_def str_int_def str_nat.simps)
  show "map request_url (snd (personal_data_fetch_endpoint_data (Some ''key'') any_response
          unreachable_upstream injected_search []))
     = [''https://api.apollo.io/api/v1/mixed_people/search?person_titles[]=cto&person_titles[]=ceo&page=1'']"
    by (simp add: snd_personal_data_fetch post_request_def personal_data_endpoint_def Let_def q
        personal_data_BASE_URL_def rstrip_def)
  show "issued_query
        ''https://api.apollo.io/api/v1/mixed_people/search?person_titles[]=cto&person_titles[]=ceo&page=1''
     = Some ''person_titles[]=cto&person_titles[]=ceo&page=1''"
    by (simp add: issued_query_def url_query_def quote_query_def query_safe_def)
  show split: "split_on CHR ''&'' ''person_titles[]=cto&person_titles[]=ceo&page=1''
     = [''person_titles[]=cto'', ''person_titles[]=ceo'', ''page=1'']"
    by simp
  show "count_key ''person_titles'' ''person_titles[]=cto&person_titles[]=ceo&page=1'' = 2"
    unfolding count_key_def split by (simp add: has_key_def)
qed

lemma space_replace_space: "CHR '' '' \<notin> set (replace_space s)"
  by (induction s) (simp_all add: replace_space_def)

lemma space_key_fragments:
  "CHR '' '' \<notin> set key \<Longrightarrow> x \<in> set (key_fragments key items) \<Longrightarrow> CHR '' '' \<notin> set x"
  by (auto simp: key_fragments_def space_replace_space)

lemma space_repeated_keys: "CHR '' '' \<notin> set key \<Longrightarrow> CHR '' '' \<notin> set (repeated_keys key v)"
  by (cases v) (auto simp: repeated_keys_def dest: space_key_fragments)

lemma space_single_key: "CHR '' '' \<notin> set key \<Longrightarrow> CHR '' '' \<notin> set (single_key key v)"
  by (cases v) (simp_all add: single_key_def space_replace_space)

lemma space_query_string: "CHR '' '' \<notin> set (personal_data_query_string p)"
  unfolding personal_data_query_string_eq
  by (simp add: space_repeated_keys space_single_key)

lemma space_endpoint: "CHR '' '' \<notin> set (personal_data_endpoint p)"
  using space_query_string[of p] set_rstrip[of "CHR ''&''" "personal_data_query_string p"]
  by (auto simp: personal_data_endpoint_def Let_def personal_data_BASE_URL_def)

lemma replace_space_append: "replace_space (s @ t) = replace_space s @ replace_space t"
  by (simp add: replace_space_def)

lemma replace_space_single: "replace_space [c] = (if c = CHR '' '' then ''%20'' else [c])"
  by (simp add: replace_space_def)

lemma example_query: "personal_data_query_string example_search =
  ''person_titles[]=software%20engineer&person_titles[]=marketing%20manager&person_locations[]=california&person_locations[]=ireland&person_seniorities[]=senior&contact_email_status[]=verified&contact_email_status[]=unverified&contact_email_status[]=likely%20to%20engage&page=1&per_page=1&''"
  by (simp add: personal_data_query_string_def personal_data_model_dump_def example_search_def
      dump_field_def replace_space_def str_int_def str_nat.simps)

text \<open>
  C7. The URL of the request depends on the parameters alone: whatever the key, the
  upstream and the calls made before, the fetch sends \<open>personal_data_endpoint p\<close>, and fetching
  twice sends it twice, byte for byte. The URL is the base URL, followed when the query
  string is not empty by \<^verbatim>\<open>?\<close> and the query string without its closing \<^verbatim>\<open>&\<close>. The query string
  is the fragments of the fields in their order, \<^verbatim>\<open>field[]=item&\<close> for each item of a list and
  \<^verbatim>\<open>field=value&\<close> for a single value, with the item or value written character by character:
  a space as \<^verbatim>\<open>%20\<close> and every other character as it is. So no space is left in the query
  string or the URL, and the example search reads \<^verbatim>\<open>software%20engineer\<close>.
\<close>

theorem personal_data_query_deterministic:
  "map request_url (snd (personal_data_fetch_endpoint_data k V up p calls))
     = map request_url calls @ [personal_data_endpoint p]
   \<and> map request_url (snd (personal_data_fetch_endpoint_data k' V' up' p
        (snd (personal_data_fetch_endpoint_data k V up p calls))))
     = map request_url calls @ [personal_data_endpoint p, personal_data_endpoint p]
   \<and> personal_data_endpoint p
     = personal_data_BASE_URL
       @ (if personal_data_query_string p = [] then []
          else ''?'' @ rstrip CHR ''&'' (personal_data_query_string p))
   \<and> personal_data_query_string p =
     repeated_keys ''person_titles'' (personal_data_EndpointParams_person_titles p)
     @ repeated_keys ''person_locations'' (personal_data_EndpointParams_person_locations p)
     @ repeated_keys ''person_seniorities'' (personal_data_EndpointParams_person_seniorities p)
     @ repeated_keys ''organization_locations'' (personal_data_EndpointParams_organization_locations p)
     @ repeated_keys ''q_organization_domains'' (personal_data_EndpointParams_q_organization_domains p)
     @ repeated_keys ''contact_email_status'' (personal_data_EndpointParams_contact_email_status p)
     @ repeated_keys ''organization_ids'' (personal_data_EndpointParams_organization_ids p)
     @ repeated_keys ''organization_num_employees_ranges''
         (personal_data_EndpointParams_organization_num_employees_ranges p)
     @ single_key ''q_keywords'' (personal_data_EndpointParams_q_keywords p)
     @ single_key ''page'' (map_option str_int (personal_data_EndpointParams_page p))
     @ single_key ''per_page'' (map_option str_int (personal_data_EndpointParams_per_page p))
   \<and> repeated_keys key None = [] \<and> repeated_keys key (Some []) = []
   \<and> repeated_keys key (Some (item # items))
     = key @ ''[]='' @ replace_space item @ ''&'' @ repeated_keys key (Some items)
   \<and> single_key key None = []
   \<and> single_key key (Some s) = key @ ''='' @ replace_space s @ ''&''
   \<and> replace_space [] = []
   \<and> replace_space (c # s) = (if c = CHR '' '' then ''%20'' else [c]) @ replace_space s
   \<and> CHR '' '' \<notin> set (personal_data_query_string p)
   \<and> CHR '' '' \<notin> set (personal_data_endpoint p)
   \<and> personal_data_query_string example_search =
  ''person_titles[]=software%20engineer&person_titles[]=marketing%20manager&person_locations[]=california&person_locations[]=ireland&person_seniorities[]=senior&contact_email_status[]=verified&contact_email_status[]=unverified&contact_email_status[]=likely%20to%20engage&page=1&per_page=1&''"
proof (intro conjI)
  show "personal_data_endpoint p
     = personal_data_BASE_URL
       @ (if personal_data_query_string p = [] then []
          else ''?'' @ rstrip CHR ''&'' (personal_data_query_string p))"
    by (simp add: personal_data_endpoint_def Let_def)
  show "repeated_keys key (Some (item # items))
     = key @ ''[]='' @ replace_space item @ ''&'' @ repeated_keys key (Some items)"
    by (simp add: repeated_keys_def key_fragments_def)
  show "replace_space (c # s) = (if c = CHR '' '' then ''%20'' else [c]) @ replace_space s"
    by (simp add: replace_space_def)
qed (simp_all only: personal_data_query_string_eq [symmetric] example_query,
     simp_all add: snd_personal_data_fetch post_request_def space_query_string space_endpoint
       repeated_keys_def key_fragments_def single_key_def replace_space_def)

theorem personal_data_query_deterministic_witness:
  "personal_data_endpoint example_search =
  ''https://api.apollo.io/api/v1/mixed_people/search?person_titles[]=software%20engineer&person_titles[]=marketing%20manager&person_locations[]=california&person_locations[]=ireland&person_seniorities[]=senior&contact_email_status[]=verified&contact_email_status[]=unverified&contact_email_status[]=likely%20to%20engage&page=1&per_page=1''"
proof -
  note t = personal_data_query_deterministic[where p = example_search]
  from t have q: "personal_data_query_string example_search =
  ''person_titles[]=software%20engineer&person_titles[]=marketing%20manager&person_locations[]=california&person_locations[]=ireland&person_seniorities[]=senior&contact_email_status[]=verified&contact_email_status[]=unverified&contact_email_status[]=likely%20to%20engage&page=1&per_page=1&''"
    by blast
  from t have "personal_data_endpoint example_search
     = personal_data_BASE_URL
       @ (if personal_data_query_string example_search = [] then []
          else ''?'' @ rstrip CHR ''&'' (personal_data_query_string example_search))"
    by blast
  then show ?thesis
    unfolding q by (simp add: personal_data_BASE_URL_def rstrip_def)
qed



section \<open>EV charging stations: the request\<close>

lemma evcharge_fetch_eq:
  "evcharge_fetch_endpoint_data V up p calls =
     (case json_of (up (length calls) (get_request (evcharge_endpoint p) [])) of
        Inl e \<Rightarrow> Inl e
      | Inr v \<Rightarrow> construct V v,
      calls @ [get_request (evcharge_endpoint p) []])"
  by (simp add: evcharge_fetch_endpoint_data_def httpx_get_eq Let_def split: sum.splits)

text \<open>
  C10. Changing \<open>limit\<close> changes nothing: the fetch with any other \<open>limit\<close> makes the same
  call and returns the same result. The one GET goes to the base URL, the fixed text with
  \<^verbatim>\<open>maxFeatures=10\<close>, and the \<open>test\<close> field as it is.
\<close>

theorem evcharge_limit_ignored:
  "evcharge_fetch_endpoint_data V up (p\<lparr>ChargingStationParams_limit := n\<rparr>) calls
     = evcharge_fetch_endpoint_data V up p calls
   \<and> snd (evcharge_fetch_endpoint_data V up p calls)
     = calls @ [get_request
         (evcharge_BASE_URL @ ''%3Aevse&maxFeatures=10&outputFormat=application%2Fjson''
            @ ChargingStationParams_test p) []]"
  by (simp add: evcharge_fetch_eq evcharge_endpoint_def)

end
